theory Spec2Isabelle
  imports Main "HOL-Library.AList" "HOL-Library.Char_ord" "HOL-Library.List_Lexorder"
begin

section \<open>The credits ledger of backend/server.js\<close>

text \<open>
  The credits system of \<^verbatim>\<open>backend/server.js\<close> (section 4 of the file, and the PayPal
  webhook route of section 6) keeps three Firestore collections: \<^verbatim>\<open>users\<close>,
  \<^verbatim>\<open>credits_ledger\<close> and \<^verbatim>\<open>processed_webhooks\<close>. The functions below follow the
  JavaScript line by line. Every \<^verbatim>\<open>await\<close>ed store call becomes a step of explicit state
  passing on the contents of the store, and a rejected promise becomes a value. The global
  handle \<^verbatim>\<open>db\<close> is \<^verbatim>\<open>null\<close> when Firebase Admin could not be initialised; every
  function tests it, so it is a Boolean argument \<open>db\<close>, true when the handle is there.
\<close>

subsection \<open>JavaScript truthiness\<close>

text \<open>
  A field of a Firestore document may be absent (\<^verbatim>\<open>undefined\<close>), which is \<open>None\<close> here.
  \<^verbatim>\<open>x || d\<close> yields \<^verbatim>\<open>d\<close> when \<^verbatim>\<open>x\<close> is falsy: absent, the number 0 or the empty string.
\<close>

definition or_int :: "int option \<Rightarrow> int \<Rightarrow> int" where
  "or_int v d = (case v of None \<Rightarrow> d | Some n \<Rightarrow> if n = 0 then d else n)"

definition or_str :: "string option \<Rightarrow> string \<Rightarrow> string" where
  "or_str v d = (case v of None \<Rightarrow> d | Some t \<Rightarrow> if t = [] then d else t)"

definition truthy :: "string option \<Rightarrow> bool" where
  "truthy v = (case v of None \<Rightarrow> False | Some t \<Rightarrow> t \<noteq> [])"

text \<open>\<^verbatim>\<open>x <= 0\<close> on a field: the comparison with \<^verbatim>\<open>undefined\<close> is false.\<close>

definition le_zero :: "int option \<Rightarrow> bool" where
  "le_zero v = (case v of None \<Rightarrow> False | Some n \<Rightarrow> n \<le> 0)"

subsection \<open>The collections\<close>

text \<open>
  A document of \<^verbatim>\<open>users\<close>. The fields \<^verbatim>\<open>createdAt\<close>, \<^verbatim>\<open>subscriptionCancelledAt\<close> and
  \<^verbatim>\<open>preferences\<close> are timestamps and settings that no credit operation reads; they are
  left out. \<^verbatim>\<open>manualProCreditsGranted\<close> is only ever tested for truthiness, so an absent
  field is \<open>False\<close>. The route \<^verbatim>\<open>PUT /api/preferences\<close> creates a document with neither
  \<^verbatim>\<open>plan\<close> nor \<^verbatim>\<open>credits_balance\<close>, so both are optional.
\<close>

record user_doc =
  plan :: "string option"
  credits_balance :: "int option"
  paypalSubscriptionId :: "string option"
  manualProCreditsGranted :: bool

text \<open>
  A document of \<^verbatim>\<open>credits_ledger\<close> (\<^verbatim>\<open>createdAt\<close> left out). The entry written at account
  creation has no \<^verbatim>\<open>balanceAfter\<close>.
\<close>

record ledger_entry =
  userId :: string
  amount :: int
  entryType :: string
  description :: string
  idempotencyKey :: "string option"
  paypalEventId :: "string option"
  balanceAfter :: "int option"

record webhook_doc =
  eventId :: string
  eventType :: string

text \<open>
  \<^verbatim>\<open>users\<close> is a list of (document id, document) pairs; \<open>map_of\<close> reads a document
  by id and \<open>AList.update\<close> writes one.
  \<^verbatim>\<open>credits_ledger\<close> documents get fresh ids and are only ever added, so the collection is
  the list of its entries in creation order. \<^verbatim>\<open>processed_webhooks\<close> is keyed by event id.
\<close>

record firestore =
  users :: "(string \<times> user_doc) list"
  credits_ledger :: "ledger_entry list"
  processed_webhooks :: "string \<rightharpoonup> webhook_doc"

definition PLAN_CREDITS_free :: int where
  "PLAN_CREDITS_free = 3"

definition PLAN_CREDITS_pro :: int where
  "PLAN_CREDITS_pro = 40"

subsection \<open>Store calls\<close>

text \<open>
  \<^verbatim>\<open>db.collection('credits_ledger').where('idempotencyKey', '==', k).limit(1).get()\<close>
  followed by \<^verbatim>\<open>!existingLedger.empty\<close>.
\<close>

definition ledger_has_key :: "firestore \<Rightarrow> string \<Rightarrow> bool" where
  "ledger_has_key s k = (find (\<lambda>e. idempotencyKey e = Some k) (credits_ledger s) \<noteq> None)"

text \<open>
  \<^verbatim>\<open>db.collection('users').where('paypalSubscriptionId', '==', sub).limit(1).get()\<close>:
  the first matching document, if any. A query without \<^verbatim>\<open>orderBy\<close> answers in the order
  of the document ids, which is the lexicographic order of the strings.
\<close>

definition users_by_subscription :: "firestore \<Rightarrow> string \<Rightarrow> (string \<times> user_doc) option" where
  "users_by_subscription s sub =
     find (\<lambda>(k, u). paypalSubscriptionId u = Some sub) (sort_key fst (users s))"

text \<open>
  \<^verbatim>\<open>docRef.update(fields)\<close> rejects when the document does not exist; \<^verbatim>\<open>docRef.set\<close>
  creates or replaces it; \<^verbatim>\<open>collection.add\<close> appends a document under a fresh id.
\<close>

definition update_user :: "firestore \<Rightarrow> string \<Rightarrow> (user_doc \<Rightarrow> user_doc) \<Rightarrow> string + firestore" where
  "update_user s uid f =
     (case map_of (users s) uid of
        None \<Rightarrow> Inl ''No document to update''
      | Some u \<Rightarrow> Inr (s\<lparr>users := AList.update uid (f u) (users s)\<rparr>))"

definition set_user :: "firestore \<Rightarrow> string \<Rightarrow> user_doc \<Rightarrow> firestore" where
  "set_user s uid u = s\<lparr>users := AList.update uid u (users s)\<rparr>"

definition add_ledger :: "firestore \<Rightarrow> ledger_entry \<Rightarrow> firestore" where
  "add_ledger s e = s\<lparr>credits_ledger := credits_ledger s @ [e]\<rparr>"

text \<open>
  Inside a transaction \<^verbatim>\<open>transaction.update\<close> and \<^verbatim>\<open>transaction.set\<close> write nothing: they
  put a write into the transaction's buffer. \<^verbatim>\<open>db.collection('credits_ledger').doc()\<close>
  names a new ledger document, so a \<^verbatim>\<open>set\<close> on it adds an entry.
\<close>

datatype tx_write =
    TxUpdateUser string "user_doc \<Rightarrow> user_doc"
  | TxSetUser string user_doc
  | TxSetLedger ledger_entry

text \<open>
  Committing a buffer applies its writes in order; one \<^verbatim>\<open>update\<close> of a missing document
  fails the whole commit.
\<close>

fun commitWrites :: "firestore \<Rightarrow> tx_write list \<Rightarrow> string + firestore" where
  "commitWrites s [] = Inr s"
| "commitWrites s (TxUpdateUser uid f # ws) =
     (case update_user s uid f of Inl msg \<Rightarrow> Inl msg | Inr s1 \<Rightarrow> commitWrites s1 ws)"
| "commitWrites s (TxSetUser uid u # ws) = commitWrites (set_user s uid u) ws"
| "commitWrites s (TxSetLedger e # ws) = commitWrites (add_ledger s e) ws"

text \<open>
  \<^verbatim>\<open>db.runTransaction(body)\<close>. The body reads the store and returns its result with the
  writes it has buffered; an exception thrown by the body rejects the transaction with
  that error and nothing is written. When the body returns, the store either commits
  the whole buffer or rejects the transaction (contention, store unavailable) and writes
  none of it. Which of the two happens is the store's choice, so it is an argument.
  This is the one store failure that the credit functions catch and turn into a result;
  the single reads and writes outside a transaction are taken to succeed, except
  \<^verbatim>\<open>update\<close> on a missing document.
\<close>

datatype tx_fate = Commits | Aborts string

definition runTransaction ::
  "tx_fate \<Rightarrow> firestore \<Rightarrow> (firestore \<Rightarrow> string + 'a \<times> tx_write list) \<Rightarrow> string + 'a \<times> firestore" where
  "runTransaction fate s body =
     (case body s of
        Inl msg \<Rightarrow> Inl msg
      | Inr (r, ws) \<Rightarrow>
          (case fate of
             Aborts msg \<Rightarrow> Inl msg
           | Commits \<Rightarrow>
               (case commitWrites s ws of Inl msg \<Rightarrow> Inl msg | Inr s' \<Rightarrow> Inr (r, s'))))"

subsection \<open>Webhook bookkeeping\<close>

definition isWebhookProcessed :: "bool \<Rightarrow> firestore \<Rightarrow> string \<Rightarrow> bool" where
  "isWebhookProcessed db s evId = (if \<not> db then False else processed_webhooks s evId \<noteq> None)"

definition markWebhookProcessed :: "bool \<Rightarrow> firestore \<Rightarrow> string \<Rightarrow> string \<Rightarrow> firestore" where
  "markWebhookProcessed db s evId evType =
     (if \<not> db then s
      else s\<lparr>processed_webhooks :=
               (processed_webhooks s)(evId \<mapsto> \<lparr>eventId = evId, eventType = evType\<rparr>)\<rparr>)"

subsection \<open>getCreditsBalance\<close>

text \<open>
  The result \<^verbatim>\<open>{ ...userData, id: userId }\<close> is the pair of the id and the fields;
  \<^verbatim>\<open>null\<close> is \<open>None\<close>.
\<close>

definition getCreditsBalance ::
  "bool \<Rightarrow> firestore \<Rightarrow> string \<Rightarrow> (string \<times> user_doc) option \<times> firestore" where
  "getCreditsBalance db s uid =
     (if \<not> db then (None, s)
      else
        (case map_of (users s) uid of
           None \<Rightarrow>
             (let newUserData = \<lparr>plan = Some ''free'', credits_balance = Some PLAN_CREDITS_free,
                                 paypalSubscriptionId = None, manualProCreditsGranted = False\<rparr>;
                  s1 = set_user s uid newUserData;
                  s2 = add_ledger s1
                         \<lparr>userId = uid, amount = PLAN_CREDITS_free, entryType = ''grant'',
                          description = ''Initial free plan credits'',
                          idempotencyKey = Some (''init_'' @ uid), paypalEventId = None,
                          balanceAfter = None\<rparr>
              in (Some (uid, newUserData), s2))
         | Some userData \<Rightarrow>
             if plan userData = Some ''pro'' \<and> \<not> truthy (paypalSubscriptionId userData)
                \<and> \<not> manualProCreditsGranted userData
             then
               (let newBalance = PLAN_CREDITS_pro;
                    s1 = set_user s uid (userData\<lparr>credits_balance := Some newBalance,
                                                  manualProCreditsGranted := True\<rparr>)
                in (Some (uid, userData\<lparr>credits_balance := Some newBalance,
                                        manualProCreditsGranted := True\<rparr>), s1))
             else (Some (uid, userData), s)))"

subsection \<open>deductCredits and addCredits\<close>

text \<open>
  The object both functions resolve to. An absent \<^verbatim>\<open>duplicate\<close> is \<open>False\<close>, an absent
  \<^verbatim>\<open>newBalance\<close> or \<^verbatim>\<open>error\<close> is \<open>None\<close>.
\<close>

record credit_result =
  success :: bool
  newBalance :: "int option"
  duplicate :: bool
  error :: "string option"

text \<open>
  The function passed to \<^verbatim>\<open>db.runTransaction\<close> by \<^verbatim>\<open>deductCredits\<close>: it reads the user
  document, throws or buffers the balance update and the ledger entry, and returns the
  new balance.
\<close>

definition deductBody ::
  "string \<Rightarrow> int \<Rightarrow> string \<Rightarrow> string option \<Rightarrow> firestore \<Rightarrow> string + int \<times> tx_write list" where
  "deductBody uid amt desc key s =
     (case map_of (users s) uid of
        None \<Rightarrow> Inl ''User not found''
      | Some userDoc \<Rightarrow>
          (let currentBalance = or_int (credits_balance userDoc) 0
           in if currentBalance < amt then Inl ''Insufficient credits''
              else
                (let newBal = currentBalance - amt
                 in Inr (newBal,
                         [TxUpdateUser uid (\<lambda>d. d\<lparr>credits_balance := Some newBal\<rparr>),
                          TxSetLedger
                            \<lparr>userId = uid, amount = - amt, entryType = ''deduction'',
                             description = desc, idempotencyKey = key, paypalEventId = None,
                             balanceAfter = Some newBal\<rparr>]))))"

text \<open>
  The idempotency query runs only for a truthy key (\<^verbatim>\<open>if (idempotencyKey)\<close>): not for
  \<^verbatim>\<open>null\<close>, not for the empty string.
\<close>

definition deductCredits ::
  "bool \<Rightarrow> firestore \<Rightarrow> tx_fate \<Rightarrow> string \<Rightarrow> int \<Rightarrow> string \<Rightarrow> string option
     \<Rightarrow> credit_result \<times> firestore" where
  "deductCredits db s fate uid amt desc key =
     (if \<not> db
      then (\<lparr>success = False, newBalance = None, duplicate = False,
             error = Some ''Database not initialized''\<rparr>, s)
      else if (case key of None \<Rightarrow> False | Some k \<Rightarrow> k \<noteq> [] \<and> ledger_has_key s k)
      then (\<lparr>success = True, newBalance = None, duplicate = True, error = None\<rparr>, s)
      else
        (case runTransaction fate s (deductBody uid amt desc key) of
           Inr (newBal, s') \<Rightarrow>
             (\<lparr>success = True, newBalance = Some newBal, duplicate = False, error = None\<rparr>, s')
         | Inl msg \<Rightarrow>
             (\<lparr>success = False, newBalance = None, duplicate = False, error = Some msg\<rparr>, s)))"

text \<open>
  \<^verbatim>\<open>addCredits\<close> takes its idempotency key as a required string and queries for it
  without a truthiness test. Its transaction body never throws.
\<close>

definition addBody ::
  "string \<Rightarrow> int \<Rightarrow> string \<Rightarrow> string \<Rightarrow> string \<Rightarrow> string option \<Rightarrow> firestore
     \<Rightarrow> string + int \<times> tx_write list" where
  "addBody uid amt ty desc key evId s =
     (let userDoc = map_of (users s) uid;
          currentBalance = (case userDoc of None \<Rightarrow> 0 | Some u \<Rightarrow> or_int (credits_balance u) 0);
          currentPlan = (case userDoc of None \<Rightarrow> ''free'' | Some u \<Rightarrow> or_str (plan u) ''free'');
          newBal = max 0 (currentBalance + amt);
          userWrite =
            (case userDoc of
               Some u \<Rightarrow>
                 TxUpdateUser uid
                   (\<lambda>d. d\<lparr>credits_balance := Some newBal,
                          plan := Some (if ty = ''purchase'' then ''pro'' else currentPlan)\<rparr>)
             | None \<Rightarrow>
                 TxSetUser uid
                   \<lparr>plan = Some (if ty = ''purchase'' then ''pro'' else ''free''),
                    credits_balance = Some newBal, paypalSubscriptionId = None,
                    manualProCreditsGranted = False\<rparr>)
      in Inr (newBal,
              [userWrite,
               TxSetLedger
                 \<lparr>userId = uid, amount = amt, entryType = ty, description = desc,
                  idempotencyKey = Some key, paypalEventId = evId,
                  balanceAfter = Some newBal\<rparr>]))"

definition addCredits ::
  "bool \<Rightarrow> firestore \<Rightarrow> tx_fate \<Rightarrow> string \<Rightarrow> int \<Rightarrow> string \<Rightarrow> string \<Rightarrow> string \<Rightarrow> string option
     \<Rightarrow> credit_result \<times> firestore" where
  "addCredits db s fate uid amt ty desc key evId =
     (if \<not> db
      then (\<lparr>success = False, newBalance = None, duplicate = False,
             error = Some ''Database not initialized''\<rparr>, s)
      else if ledger_has_key s key
      then (\<lparr>success = True, newBalance = None, duplicate = True, error = None\<rparr>, s)
      else
        (case runTransaction fate s (addBody uid amt ty desc key evId) of
           Inr (newBal, s') \<Rightarrow>
             (\<lparr>success = True, newBalance = Some newBal, duplicate = False, error = None\<rparr>, s')
         | Inl msg \<Rightarrow>
             (\<lparr>success = False, newBalance = None, duplicate = False, error = Some msg\<rparr>, s)))"

subsection \<open>The usage gate\<close>

text \<open>
  The body of the 403 response, \<^verbatim>\<open>{error, message, credits_balance, plan}\<close>.
\<close>

record insufficient_body =
  resp_error :: string
  resp_message :: string
  resp_credits_balance :: "int option"
  resp_plan :: "string option"

text \<open>
  What a gate does with the request: \<^verbatim>\<open>next()\<close>, with \<^verbatim>\<open>req.creditsData\<close> when the
  gate attached it, or \<^verbatim>\<open>res.status(code).json(body)\<close>.
\<close>

datatype gate_outcome = Next "(string \<times> user_doc) option" | Reject nat insufficient_body

definition upgrade_message :: "string option \<Rightarrow> string" where
  "upgrade_message p =
     (if p = Some ''free''
      then ''You have used all 3 free lifetime uploads. Upgrade to Pro for 40 uploads/month!''
      else ''You have no credits remaining. Your credits will renew with your next billing cycle.'')"

text \<open>
  \<^verbatim>\<open>authHeader.split('Bearer ')[1]\<close> for a header that starts with \<^verbatim>\<open>'Bearer '\<close>: the text
  after that prefix, up to the next occurrence of the separator.
\<close>

fun upto_sep :: "string \<Rightarrow> string \<Rightarrow> string" where
  "upto_sep sep [] = []"
| "upto_sep sep (c # cs) =
     (if take (length sep) (c # cs) = sep then [] else c # upto_sep sep cs)"

definition startsWith :: "string \<Rightarrow> string \<Rightarrow> bool" where
  "startsWith h p = (take (length p) h = p)"

definition bearerToken :: "string \<Rightarrow> string" where
  "bearerToken h = upto_sep ''Bearer '' (drop (length ''Bearer '') h)"

text \<open>
  The middleware \<^verbatim>\<open>checkCredits\<close>. \<open>verifyIdToken\<close> stands for
  \<^verbatim>\<open>admin.auth().verifyIdToken\<close>: the \<^verbatim>\<open>uid\<close> of the decoded token, or \<open>None\<close> when it
  throws. \<open>authHeader\<close> is \<^verbatim>\<open>req.headers.authorization\<close>.
\<close>

definition checkCredits ::
  "bool \<Rightarrow> firestore \<Rightarrow> (string \<Rightarrow> string option) \<Rightarrow> string option \<Rightarrow> gate_outcome \<times> firestore" where
  "checkCredits db s verifyIdToken authHeader =
     (case authHeader of
        None \<Rightarrow> (Next None, s)
      | Some h \<Rightarrow>
          if h = [] \<or> \<not> startsWith h ''Bearer '' \<or> \<not> db then (Next None, s)
          else
            (let idToken = bearerToken h
             in case verifyIdToken idToken of
                  None \<Rightarrow> (Next None, s)
                | Some uid \<Rightarrow>
                    (case getCreditsBalance db s uid of
                       (None, s1) \<Rightarrow> (Next None, s1)
                     | (Some userData, s1) \<Rightarrow>
                         if le_zero (credits_balance (snd userData))
                         then (Reject 403
                                 \<lparr>resp_error = ''Insufficient credits'',
                                  resp_message = upgrade_message (plan (snd userData)),
                                  resp_credits_balance = credits_balance (snd userData),
                                  resp_plan = plan (snd userData)\<rparr>, s1)
                         else (Next (Some userData), s1))))"

text \<open>
  Step 2 of the route \<^verbatim>\<open>POST /api/generate-plan\<close> ("pre-check credits before expensive AI
  call"), which runs after the \<^verbatim>\<open>authenticate\<close> middleware has put the verified user on
  the request. \<open>Next None\<close> is falling through to step 3.
\<close>

definition generatePlanPrecheck :: "bool \<Rightarrow> firestore \<Rightarrow> string \<Rightarrow> gate_outcome \<times> firestore" where
  "generatePlanPrecheck db s uid =
     (if db then
        (case getCreditsBalance db s uid of
           (None, s1) \<Rightarrow>
             (Reject 403
                \<lparr>resp_error = ''Insufficient credits'', resp_message = upgrade_message None,
                 resp_credits_balance = Some 0, resp_plan = Some ''free''\<rparr>, s1)
         | (Some userData, s1) \<Rightarrow>
             if le_zero (credits_balance (snd userData))
             then (Reject 403
                     \<lparr>resp_error = ''Insufficient credits'',
                      resp_message = upgrade_message (plan (snd userData)),
                      resp_credits_balance = Some (or_int (credits_balance (snd userData)) 0),
                      resp_plan = Some (or_str (plan (snd userData)) ''free'')\<rparr>, s1)
             else (Next None, s1))
      else (Next None, s))"

subsection \<open>The PayPal webhook route\<close>

text \<open>
  The parsed event: \<^verbatim>\<open>event.id\<close>, \<^verbatim>\<open>event.event_type\<close>, \<^verbatim>\<open>event.resource?.id\<close> and
  \<^verbatim>\<open>event.resource?.custom_id\<close>. A body that does not parse, or that has no id, sends
  the route into its \<^verbatim>\<open>catch\<close> before any write; such a body is not an event here.
\<close>

record paypal_event =
  event_id :: string
  event_type :: string
  resource_id :: "string option"
  resource_custom_id :: "string option"

text \<open>
  Step 3 of the route, the \<^verbatim>\<open>switch\<close> on the event type, one definition for each group
  of \<^verbatim>\<open>case\<close> labels. \<open>Inr\<close> is the store when the case reaches its \<^verbatim>\<open>break\<close>; \<open>Inl\<close>
  is an exception thrown out of it, with the store as it is at that moment. The route
  does not look at what \<^verbatim>\<open>addCredits\<close> resolves to.
\<close>

definition onPayment :: "firestore \<Rightarrow> tx_fate \<Rightarrow> paypal_event \<Rightarrow> string \<times> firestore + firestore" where
  "onPayment s fate ev =
     (case resource_id ev of
        None \<Rightarrow> Inr s
      | Some subscriptionId \<Rightarrow>
          if subscriptionId = [] then Inr s
          else
            (let uid0 =
                   (if truthy (resource_custom_id ev) then resource_custom_id ev
                    else (case users_by_subscription s subscriptionId of
                            None \<Rightarrow> resource_custom_id ev
                          | Some (k, u) \<Rightarrow> Some k))
             in case uid0 of
                  None \<Rightarrow> Inr s
                | Some uid \<Rightarrow>
                    if uid = [] then Inr s
                    else
                      (let s1 = snd (addCredits True s fate uid PLAN_CREDITS_pro ''purchase''
                                       (''Pro subscription payment ('' @ event_type ev @ '')'')
                                       (''paypal_'' @ event_id ev) (Some (event_id ev)))
                       in case update_user s1 uid
                                 (\<lambda>d. d\<lparr>paypalSubscriptionId := Some subscriptionId,
                                        plan := Some ''pro''\<rparr>) of
                            Inl msg \<Rightarrow> Inl (msg, s1)
                          | Inr s2 \<Rightarrow> Inr s2)))"

definition onRefund :: "firestore \<Rightarrow> tx_fate \<Rightarrow> paypal_event \<Rightarrow> string \<times> firestore + firestore" where
  "onRefund s fate ev =
     (case resource_id ev of
        None \<Rightarrow> Inr s
      | Some subscriptionId \<Rightarrow>
          if subscriptionId = [] then Inr s
          else
            (case users_by_subscription s subscriptionId of
               None \<Rightarrow> Inr s
             | Some (uid, u) \<Rightarrow>
                 Inr (snd (addCredits True s fate uid (- PLAN_CREDITS_pro) ''refund''
                             (''Payment refunded/reversed ('' @ event_type ev @ '')'')
                             (''paypal_refund_'' @ event_id ev) (Some (event_id ev))))))"

definition onCancel :: "firestore \<Rightarrow> paypal_event \<Rightarrow> string \<times> firestore + firestore" where
  "onCancel s ev =
     (case resource_id ev of
        None \<Rightarrow> Inr s
      | Some subscriptionId \<Rightarrow>
          if subscriptionId = [] then Inr s
          else
            (case users_by_subscription s subscriptionId of
               None \<Rightarrow> Inr s
             | Some (uid, u) \<Rightarrow>
                 (case update_user s uid (\<lambda>d. d\<lparr>plan := Some ''free''\<rparr>) of
                    Inl msg \<Rightarrow> Inl (msg, s)
                  | Inr s1 \<Rightarrow> Inr s1)))"

definition isPaymentEvent :: "string \<Rightarrow> bool" where
  "isPaymentEvent t = (t = ''BILLING.SUBSCRIPTION.ACTIVATED'' \<or> t = ''PAYMENT.SALE.COMPLETED'')"

definition isRefundEvent :: "string \<Rightarrow> bool" where
  "isRefundEvent t = (t = ''PAYMENT.SALE.REFUNDED'' \<or> t = ''PAYMENT.SALE.REVERSED'')"

definition isCancelEvent :: "string \<Rightarrow> bool" where
  "isCancelEvent t =
     (t = ''BILLING.SUBSCRIPTION.CANCELLED'' \<or> t = ''BILLING.SUBSCRIPTION.SUSPENDED''
      \<or> t = ''BILLING.SUBSCRIPTION.EXPIRED'')"

definition applyEvent :: "firestore \<Rightarrow> tx_fate \<Rightarrow> paypal_event \<Rightarrow> string \<times> firestore + firestore" where
  "applyEvent s fate ev =
     (if isPaymentEvent (event_type ev) then onPayment s fate ev
      else if isRefundEvent (event_type ev) then onRefund s fate ev
      else if isCancelEvent (event_type ev) then onCancel s ev
      else Inr s)"

text \<open>
  The route \<^verbatim>\<open>POST /api/paypal/webhook\<close>, from the parsed event on. \<open>isValid\<close> is what
  \<^verbatim>\<open>verifyPayPalWebhook\<close> (a call to PayPal) answers. The result is the HTTP status with
  the text sent, and the store afterwards. The \<^verbatim>\<open>catch\<close> of the route answers 200 too.
\<close>

definition paypalWebhook ::
  "bool \<Rightarrow> firestore \<Rightarrow> bool \<Rightarrow> tx_fate \<Rightarrow> paypal_event \<Rightarrow> (nat \<times> string) \<times> firestore" where
  "paypalWebhook db s isValid fate ev =
     (if \<not> db then ((200, ''OK''), s)
      else if \<not> isValid then ((401, ''Invalid signature''), s)
      else if isWebhookProcessed db s (event_id ev) then ((200, ''OK''), s)
      else
        (case applyEvent s fate ev of
           Inl (msg, s1) \<Rightarrow> ((200, ''OK''), s1)
         | Inr s1 \<Rightarrow> ((200, ''OK''), markWebhookProcessed db s1 (event_id ev) (event_type ev))))"

section \<open>Properties of the store\<close>

text \<open>
  The sum of \<^verbatim>\<open>amount\<close> over the ledger entries of a user, and the balance the credit
  operations read for that user: \<^verbatim>\<open>credits_balance || 0\<close>, and 0 where \<^verbatim>\<open>addCredits\<close>
  finds no document.
\<close>

definition ledger_sum :: "firestore \<Rightarrow> string \<Rightarrow> int" where
  "ledger_sum s uid = sum_list (map amount (filter (\<lambda>e. userId e = uid) (credits_ledger s)))"

definition balance_of :: "firestore \<Rightarrow> string \<Rightarrow> int" where
  "balance_of s uid =
     (case map_of (users s) uid of None \<Rightarrow> 0 | Some u \<Rightarrow> or_int (credits_balance u) 0)"

definition ledger_matches_balance :: "firestore \<Rightarrow> string \<Rightarrow> bool" where
  "ledger_matches_balance s uid = (ledger_sum s uid = balance_of s uid)"

text \<open>The test that sends \<^verbatim>\<open>getCreditsBalance\<close> down its "manual Pro" correction.\<close>

definition manualProApplies :: "firestore \<Rightarrow> string \<Rightarrow> bool" where
  "manualProApplies s uid =
     (case map_of (users s) uid of
        None \<Rightarrow> False
      | Some d \<Rightarrow> plan d = Some ''pro'' \<and> \<not> truthy (paypalSubscriptionId d)
                   \<and> \<not> manualProCreditsGranted d)"

text \<open>What a replayed call resolves to, and the entry a deduction appends.\<close>

definition replayResult :: credit_result where
  "replayResult = \<lparr>success = True, newBalance = None, duplicate = True, error = None\<rparr>"

definition deductionEntry :: "string \<Rightarrow> int \<Rightarrow> string \<Rightarrow> string option \<Rightarrow> int \<Rightarrow> ledger_entry" where
  "deductionEntry uid amt desc key bal =
     \<lparr>userId = uid, amount = - amt, entryType = ''deduction'', description = desc,
      idempotencyKey = key, paypalEventId = None, balanceAfter = Some bal\<rparr>"

text \<open>
  The test \<^verbatim>\<open>deductCredits\<close> makes before its transaction: a truthy key that some ledger
  entry carries. The result of a deduction that the balance does not cover.
\<close>

definition replayed :: "firestore \<Rightarrow> string option \<Rightarrow> bool" where
  "replayed s key = (case key of None \<Rightarrow> False | Some k \<Rightarrow> k \<noteq> [] \<and> ledger_has_key s k)"

definition insufficientResult :: credit_result where
  "insufficientResult =
     \<lparr>success = False, newBalance = None, duplicate = False, error = Some ''Insufficient credits''\<rparr>"

text \<open>The account and the ledger entry that the first balance query of a user creates.\<close>

definition freeAccount :: user_doc where
  "freeAccount = \<lparr>plan = Some ''free'', credits_balance = Some 3, paypalSubscriptionId = None,
                   manualProCreditsGranted = False\<rparr>"

definition initEntry :: "string \<Rightarrow> ledger_entry" where
  "initEntry uid =
     \<lparr>userId = uid, amount = 3, entryType = ''grant'', description = ''Initial free plan credits'',
      idempotencyKey = Some (''init_'' @ uid), paypalEventId = None, balanceAfter = None\<rparr>"

text \<open>
  The ledger entries that refer to a PayPal event, and the entry that the webhook route
  has \<^verbatim>\<open>addCredits\<close> append for a payment event.
\<close>

definition entriesForEvent :: "firestore \<Rightarrow> string \<Rightarrow> ledger_entry list" where
  "entriesForEvent s evId = filter (\<lambda>e. paypalEventId e = Some evId) (credits_ledger s)"

definition purchaseEntry :: "paypal_event \<Rightarrow> string \<Rightarrow> int \<Rightarrow> ledger_entry" where
  "purchaseEntry ev uid bal =
     \<lparr>userId = uid, amount = 40, entryType = ''purchase'',
      description = ''Pro subscription payment ('' @ event_type ev @ '')'',
      idempotencyKey = Some (''paypal_'' @ event_id ev), paypalEventId = Some (event_id ev),
      balanceAfter = Some bal\<rparr>"

definition refundEntry :: "paypal_event \<Rightarrow> string \<Rightarrow> int \<Rightarrow> ledger_entry" where
  "refundEntry ev uid bal =
     \<lparr>userId = uid, amount = - 40, entryType = ''refund'',
      description = ''Payment refunded/reversed ('' @ event_type ev @ '')'',
      idempotencyKey = Some (''paypal_refund_'' @ event_id ev), paypalEventId = Some (event_id ev),
      balanceAfter = Some bal\<rparr>"

text \<open>
  An event delivered twice, the first delivery with a valid signature: the second
  delivery changes nothing, the event has its record, and the ledger entries that refer
  to the event are \<open>es\<close>.
\<close>

definition twiceGives ::
  "bool \<Rightarrow> firestore \<Rightarrow> tx_fate \<Rightarrow> bool \<Rightarrow> tx_fate \<Rightarrow> paypal_event \<Rightarrow> ledger_entry list \<Rightarrow> bool" where
  "twiceGives db s fate1 isValid fate2 ev es =
     (let s1 = snd (paypalWebhook db s True fate1 ev);
          s2 = snd (paypalWebhook db s1 isValid fate2 ev)
      in s2 = s1
         \<and> processed_webhooks s2 (event_id ev)
             = Some \<lparr>eventId = event_id ev, eventType = event_type ev\<rparr>
         \<and> entriesForEvent s2 (event_id ev) = es)"

subsection \<open>Example stores\<close>

text \<open>
  The store after the first \<^verbatim>\<open>getCreditsBalance('alice')\<close> on an empty database, and the
  same store after an administrator has set \<^verbatim>\<open>plan\<close> to \<^verbatim>\<open>'pro'\<close> by hand.
\<close>

definition alice_store :: firestore where
  "alice_store =
     \<lparr>users = [(''alice'', \<lparr>plan = Some ''free'', credits_balance = Some 3,
                            paypalSubscriptionId = None, manualProCreditsGranted = False\<rparr>)],
      credits_ledger = [\<lparr>userId = ''alice'', amount = 3, entryType = ''grant'',
                         description = ''Initial free plan credits'',
                         idempotencyKey = Some ''init_alice'', paypalEventId = None,
                         balanceAfter = None\<rparr>],
      processed_webhooks = Map.empty\<rparr>"

definition pro_by_hand_store :: firestore where
  "pro_by_hand_store =
     \<lparr>users = [(''alice'', \<lparr>plan = Some ''pro'', credits_balance = Some 3,
                            paypalSubscriptionId = None, manualProCreditsGranted = False\<rparr>)],
      credits_ledger = [\<lparr>userId = ''alice'', amount = 3, entryType = ''grant'',
                         description = ''Initial free plan credits'',
                         idempotencyKey = Some ''init_alice'', paypalEventId = None,
                         balanceAfter = None\<rparr>],
      processed_webhooks = Map.empty\<rparr>"

definition payment_event :: paypal_event where
  "payment_event = \<lparr>event_id = ''E1'', event_type = ''BILLING.SUBSCRIPTION.ACTIVATED'',
                     resource_id = Some ''S1'', resource_custom_id = Some ''alice''\<rparr>"

definition empty_store :: firestore where
  "empty_store = \<lparr>users = [], credits_ledger = [], processed_webhooks = Map.empty\<rparr>"

text \<open>
  An account that has used its credits up, a token verifier that knows one token, and
  the store in which \<open>payment_event\<close> is recorded as processed although no credits were
  granted for it.
\<close>

definition spent_store :: firestore where
  "spent_store =
     \<lparr>users = [(''alice'', \<lparr>plan = Some ''free'', credits_balance = Some 0,
                            paypalSubscriptionId = None, manualProCreditsGranted = False\<rparr>)],
      credits_ledger = [], processed_webhooks = Map.empty\<rparr>"

definition token_of :: "string \<Rightarrow> string option" where
  "token_of t = (if t = ''tok-alice'' then Some ''alice'' else None)"

definition aborted_payment_store :: firestore where
  "aborted_payment_store =
     \<lparr>users = [(''alice'', \<lparr>plan = Some ''pro'', credits_balance = Some 3,
                            paypalSubscriptionId = Some ''S1'', manualProCreditsGranted = False\<rparr>)],
      credits_ledger = [initEntry ''alice''],
      processed_webhooks = [''E1'' \<mapsto> \<lparr>eventId = ''E1'', eventType = ''BILLING.SUBSCRIPTION.ACTIVATED''\<rparr>]\<rparr>"

text \<open>A store in which a ledger entry carries the empty string as its idempotency key.\<close>

definition empty_key_store :: firestore where
  "empty_key_store =
     \<lparr>users = [(''alice'', \<lparr>plan = Some ''free'', credits_balance = Some 2,
                            paypalSubscriptionId = None, manualProCreditsGranted = False\<rparr>)],
      credits_ledger = [initEntry ''alice'',
                        deductionEntry ''alice'' 1 ''AI Chat Interaction'' (Some []) 2],
      processed_webhooks = Map.empty\<rparr>"

text \<open>
  The account of \<open>alice_store\<close> after three generations have used its credits up, each
  deduction under the key of its generation.
\<close>

definition used_up_store :: firestore where
  "used_up_store =
     \<lparr>users = [(''alice'', \<lparr>plan = Some ''free'', credits_balance = Some 0,
                            paypalSubscriptionId = None, manualProCreditsGranted = False\<rparr>)],
      credits_ledger = [initEntry ''alice'',
                        deductionEntry ''alice'' 1 ''Study plan generation: a.pdf'' (Some ''gen_1'') 2,
                        deductionEntry ''alice'' 1 ''Study plan generation: b.pdf'' (Some ''gen_2'') 1,
                        deductionEntry ''alice'' 1 ''Study plan generation: c.pdf'' (Some ''gen_3'') 0],
      processed_webhooks = Map.empty\<rparr>"

text \<open>
  The store after \<open>payment_event\<close> has been processed for \<open>alice_store\<close>, and further
  events for it: a cancellation, a refund and a renewal of the subscription, a payment
  without a subscription id, and a refund and a payment for a subscription that no
  account carries.
\<close>

definition subscribed_doc :: user_doc where
  "subscribed_doc = \<lparr>plan = Some ''pro'', credits_balance = Some 43,
                      paypalSubscriptionId = Some ''S1'', manualProCreditsGranted = False\<rparr>"

definition subscribed_store :: firestore where
  "subscribed_store =
     \<lparr>users = [(''alice'', \<lparr>plan = Some ''pro'', credits_balance = Some 43,
                            paypalSubscriptionId = Some ''S1'', manualProCreditsGranted = False\<rparr>)],
      credits_ledger = [initEntry ''alice'', purchaseEntry payment_event ''alice'' 43],
      processed_webhooks = [''E1'' \<mapsto> \<lparr>eventId = ''E1'', eventType = ''BILLING.SUBSCRIPTION.ACTIVATED''\<rparr>]\<rparr>"

definition cancel_event :: paypal_event where
  "cancel_event = \<lparr>event_id = ''E2'', event_type = ''BILLING.SUBSCRIPTION.CANCELLED'',
                    resource_id = Some ''S1'', resource_custom_id = None\<rparr>"

definition refund_event :: paypal_event where
  "refund_event = \<lparr>event_id = ''E3'', event_type = ''PAYMENT.SALE.REFUNDED'',
                    resource_id = Some ''S1'', resource_custom_id = None\<rparr>"

definition renewal_event :: paypal_event where
  "renewal_event = \<lparr>event_id = ''E4'', event_type = ''PAYMENT.SALE.COMPLETED'',
                     resource_id = Some ''S1'', resource_custom_id = None\<rparr>"

definition orphan_payment_event :: paypal_event where
  "orphan_payment_event = \<lparr>event_id = ''E5'', event_type = ''PAYMENT.SALE.COMPLETED'',
                            resource_id = None, resource_custom_id = None\<rparr>"

definition stray_refund_event :: paypal_event where
  "stray_refund_event = \<lparr>event_id = ''E6'', event_type = ''PAYMENT.SALE.REVERSED'',
                          resource_id = Some ''S9'', resource_custom_id = None\<rparr>"

definition stray_payment_event :: paypal_event where
  "stray_payment_event = \<lparr>event_id = ''E7'', event_type = ''BILLING.SUBSCRIPTION.ACTIVATED'',
                           resource_id = Some ''S9'', resource_custom_id = None\<rparr>"

section \<open>Lemmas about the store calls\<close>

text \<open>What the two transactions of the credit functions come to.\<close>

lemma run_deductBody:
  "runTransaction fate s (deductBody uid amt desc key) =
     (case map_of (users s) uid of
        None \<Rightarrow> Inl ''User not found''
      | Some userDoc \<Rightarrow>
          if or_int (credits_balance userDoc) 0 < amt then Inl ''Insufficient credits''
          else
            (case fate of
               Aborts msg \<Rightarrow> Inl msg
             | Commits \<Rightarrow>
                 Inr (or_int (credits_balance userDoc) 0 - amt,
                      add_ledger
                        (set_user s uid
                           (userDoc\<lparr>credits_balance := Some (or_int (credits_balance userDoc) 0 - amt)\<rparr>))
                        \<lparr>userId = uid, amount = - amt, entryType = ''deduction'',
                         description = desc, idempotencyKey = key, paypalEventId = None,
                         balanceAfter = Some (or_int (credits_balance userDoc) 0 - amt)\<rparr>)))"
  by (simp add: runTransaction_def deductBody_def Let_def update_user_def set_user_def
        split: option.splits tx_fate.splits)

lemma run_addBody:
  "runTransaction fate s (addBody uid amt ty desc key evId) =
     (case fate of
        Aborts msg \<Rightarrow> Inl msg
      | Commits \<Rightarrow>
          (case map_of (users s) uid of
             None \<Rightarrow>
               Inr (max 0 (0 + amt),
                    add_ledger
                      (set_user s uid
                         \<lparr>plan = Some (if ty = ''purchase'' then ''pro'' else ''free''),
                          credits_balance = Some (max 0 (0 + amt)), paypalSubscriptionId = None,
                          manualProCreditsGranted = False\<rparr>)
                      \<lparr>userId = uid, amount = amt, entryType = ty, description = desc,
                       idempotencyKey = Some key, paypalEventId = evId,
                       balanceAfter = Some (max 0 (0 + amt))\<rparr>)
           | Some u \<Rightarrow>
               Inr (max 0 (or_int (credits_balance u) 0 + amt),
                    add_ledger
                      (set_user s uid
                         (u\<lparr>credits_balance := Some (max 0 (or_int (credits_balance u) 0 + amt)),
                            plan := Some (if ty = ''purchase'' then ''pro''
                                          else or_str (plan u) ''free'')\<rparr>))
                      \<lparr>userId = uid, amount = amt, entryType = ty, description = desc,
                       idempotencyKey = Some key, paypalEventId = evId,
                       balanceAfter = Some (max 0 (or_int (credits_balance u) 0 + amt))\<rparr>)))"
  by (simp add: runTransaction_def addBody_def Let_def update_user_def set_user_def
        split: option.splits tx_fate.splits)

lemma find_Some_mem: "find P xs = Some x \<Longrightarrow> x \<in> set xs"
  by (induction xs) (auto split: if_splits)

lemma by_subscription_exists:
  assumes "users_by_subscription s sub = Some (uid, u)"
  shows "map_of (users s) uid \<noteq> None"
proof -
  have "(uid, u) \<in> set (sort_key fst (users s))"
    using assms unfolding users_by_subscription_def by (rule find_Some_mem)
  then have "(uid, u) \<in> set (users s)" by simp
  then have "uid \<in> fst ` set (users s)" by force
  then show ?thesis by (simp add: map_of_eq_None_iff)
qed

lemma or_int_0: "or_int v 0 = (case v of None \<Rightarrow> 0 | Some n \<Rightarrow> n)"
  by (simp add: or_int_def split: option.splits)

lemma ledger_sum_set_user: "ledger_sum (set_user s uid u) v = ledger_sum s v"
  by (simp add: ledger_sum_def set_user_def)

lemma balance_of_set_user:
  "balance_of (set_user s uid u) v = (if v = uid then or_int (credits_balance u) 0 else balance_of s v)"
  by (simp add: balance_of_def set_user_def update_conv')

lemma ledger_sum_add_ledger:
  "ledger_sum (add_ledger s e) v = ledger_sum s v + (if userId e = v then amount e else 0)"
  by (simp add: ledger_sum_def add_ledger_def)

lemma balance_of_add_ledger: "balance_of (add_ledger s e) v = balance_of s v"
  by (simp add: balance_of_def add_ledger_def)

lemmas store_simps = or_int_0 ledger_sum_set_user balance_of_set_user ledger_sum_add_ledger balance_of_add_ledger

lemma matches_mark:
  "ledger_matches_balance (markWebhookProcessed db s e t) v = ledger_matches_balance s v"
  by (simp add: markWebhookProcessed_def ledger_matches_balance_def ledger_sum_def balance_of_def)

lemma balance_of_update_user:
  assumes "update_user s uid f = Inr s'" "\<And>d. credits_balance (f d) = credits_balance d"
  shows "balance_of s' v = balance_of s v" "ledger_sum s' v = ledger_sum s v"
  using assms
  by (auto simp: update_user_def balance_of_def ledger_sum_def update_conv' split: option.splits if_splits)

lemma add_preserves_gen:
  assumes "ledger_matches_balance s v" "uid = v \<longrightarrow> 0 \<le> balance_of s v + amt"
  shows "ledger_matches_balance (snd (addCredits db s fate uid amt ty desc key evId)) v"
  using assms
  by (auto simp: addCredits_def run_addBody ledger_matches_balance_def Let_def
       store_simps balance_of_def[of s]  split: option.splits sum.splits tx_fate.splits)

lemma matches_update_user:
  assumes "update_user t u f = Inr t'" "\<And>d. credits_balance (f d) = credits_balance d"
  shows "ledger_matches_balance t' v = ledger_matches_balance t v"
  using balance_of_update_user[OF assms, of v] by (simp add: ledger_matches_balance_def)

lemma onPayment_preserves:
  assumes "ledger_matches_balance s v" "0 \<le> balance_of s v"
  shows "case onPayment s fate ev of Inl (msg, s1) \<Rightarrow> ledger_matches_balance s1 v
          | Inr s1 \<Rightarrow> ledger_matches_balance s1 v"
proof -
  have act: "ledger_matches_balance (snd (addCredits True s fate u PLAN_CREDITS_pro ty de k e)) v"
    for u ty de k e
    using assms by (intro add_preserves_gen) (auto simp: PLAN_CREDITS_pro_def)
  show ?thesis
    unfolding onPayment_def Let_def
    using assms(1) act
    by (auto split: option.splits sum.splits simp: matches_update_user)
qed

lemma onRefund_preserves:
  assumes "ledger_matches_balance s v" "PLAN_CREDITS_pro \<le> balance_of s v"
  shows "case onRefund s fate ev of Inl (msg, s1) \<Rightarrow> ledger_matches_balance s1 v
          | Inr s1 \<Rightarrow> ledger_matches_balance s1 v"
proof -
  have ref: "ledger_matches_balance (snd (addCredits True s fate u (- PLAN_CREDITS_pro) ty de k e)) v"
    for u ty de k e
    using assms by (intro add_preserves_gen) auto
  show ?thesis
    unfolding onRefund_def
    using assms(1) ref
    by (auto split: option.splits)
qed

lemma onCancel_preserves:
  assumes "ledger_matches_balance s v"
  shows "case onCancel s ev of Inl (msg, s1) \<Rightarrow> ledger_matches_balance s1 v
          | Inr s1 \<Rightarrow> ledger_matches_balance s1 v"
  unfolding onCancel_def using assms
  by (auto split: option.splits sum.splits simp: matches_update_user)

lemma apply_preserves:
  assumes "ledger_matches_balance s v" "0 \<le> balance_of s v"
    and "isRefundEvent (event_type ev) \<longrightarrow> PLAN_CREDITS_pro \<le> balance_of s v"
  shows "case applyEvent s fate ev of Inl (msg, s1) \<Rightarrow> ledger_matches_balance s1 v
          | Inr s1 \<Rightarrow> ledger_matches_balance s1 v"
  using onPayment_preserves[OF assms(1,2), of fate ev] onRefund_preserves[OF assms(1), of fate ev]
    onCancel_preserves[OF assms(1), of ev] assms
  by (simp add: applyEvent_def)

lemma webhook_preserves:
  assumes "ledger_matches_balance s v" "0 \<le> balance_of s v"
    and "isRefundEvent (event_type ev) \<longrightarrow> PLAN_CREDITS_pro \<le> balance_of s v"
  shows "ledger_matches_balance (snd (paypalWebhook db s isValid fate ev)) v"
  using apply_preserves[OF assms, of fate] assms(1)
  by (auto simp: paypalWebhook_def matches_mark split: sum.splits prod.splits)

lemma get_preserves:
  assumes "ledger_matches_balance s v" "\<not> manualProApplies s uid"
  shows "ledger_matches_balance (snd (getCreditsBalance db s uid)) v"
  using assms
  by (auto simp: getCreditsBalance_def ledger_matches_balance_def Let_def manualProApplies_def
        store_simps balance_of_def[of s] PLAN_CREDITS_free_def split: option.splits)

lemma deduct_preserves:
  assumes "ledger_matches_balance s v"
  shows "ledger_matches_balance (snd (deductCredits db s fate uid amt desc key)) v"
  using assms
  by (auto simp: deductCredits_def run_deductBody ledger_matches_balance_def Let_def
        store_simps balance_of_def[of s]  split: option.splits sum.splits tx_fate.splits)

lemma ledger_has_key_iff:
  "ledger_has_key s k \<longleftrightarrow> (\<exists>e \<in> set (credits_ledger s). idempotencyKey e = Some k)"
  by (auto simp: ledger_has_key_def find_None_iff)

lemma deduct_replay:
  assumes "db" "k \<noteq> []" "ledger_has_key s k"
  shows "deductCredits db s fate uid amt desc (Some k) = (replayResult, s)"
  using assms by (simp add: deductCredits_def replayResult_def)

lemma deduct_commit:
  assumes "db" "\<not> (case key of None \<Rightarrow> False | Some k \<Rightarrow> k \<noteq> [] \<and> ledger_has_key s k)"
    "map_of (users s) uid = Some d" "amt \<le> or_int (credits_balance d) 0"
  shows "deductCredits db s Commits uid amt desc key =
           (\<lparr>success = True, newBalance = Some (or_int (credits_balance d) 0 - amt),
             duplicate = False, error = None\<rparr>,
            add_ledger (set_user s uid (d\<lparr>credits_balance := Some (or_int (credits_balance d) 0 - amt)\<rparr>))
              (deductionEntry uid amt desc key (or_int (credits_balance d) 0 - amt)))"
  using assms
  by (simp add: deductCredits_def run_deductBody Let_def deductionEntry_def)

lemma has_key_after_add:
  "ledger_has_key (add_ledger s e) k \<longleftrightarrow> ledger_has_key s k \<or> idempotencyKey e = Some k"
  by (auto simp: ledger_has_key_iff add_ledger_def)

lemma deduct_outcome:
  assumes "db" "map_of (users s) uid = Some d" "or_int (credits_balance d) 0 = b"
  shows "deductCredits db s fate uid amt desc key =
     (if replayed s key then (replayResult, s)
      else if b < amt then (insufficientResult, s)
      else (case fate of
              Commits \<Rightarrow>
                (\<lparr>success = True, newBalance = Some (b - amt), duplicate = False, error = None\<rparr>,
                 add_ledger (set_user s uid (d\<lparr>credits_balance := Some (b - amt)\<rparr>))
                   (deductionEntry uid amt desc key (b - amt)))
            | Aborts msg \<Rightarrow>
                (\<lparr>success = False, newBalance = None, duplicate = False, error = Some msg\<rparr>, s)))"
  using assms
  by (simp add: deductCredits_def replayed_def replayResult_def insufficientResult_def
        run_deductBody Let_def deductionEntry_def split: tx_fate.splits)

lemma getBalance_returns:
  "db \<Longrightarrow> \<exists>d. fst (getCreditsBalance db s uid) = Some (uid, d)"
  by (simp add: getCreditsBalance_def Let_def split: option.splits)



lemma webhook_replay:
  assumes "processed_webhooks s (event_id ev) \<noteq> None"
  shows "snd (paypalWebhook db s isValid fate ev) = s"
  using assms by (simp add: paypalWebhook_def isWebhookProcessed_def)

lemma addCredits_commit:
  assumes "\<not> ledger_has_key s key"
  shows "\<exists>d. snd (addCredits True s Commits uid amt ty desc key evId) =
           add_ledger (set_user s uid d)
             \<lparr>userId = uid, amount = amt, entryType = ty, description = desc,
              idempotencyKey = Some key, paypalEventId = evId,
              balanceAfter = Some (max 0 (balance_of s uid + amt))\<rparr>"
  using assms
  by (auto simp: addCredits_def run_addBody Let_def balance_of_def
        split: option.splits)


lemma processed_addCredits:
  "processed_webhooks (snd (addCredits db s fate uid amt ty desc key evId)) = processed_webhooks s"
  by (auto simp: addCredits_def run_addBody Let_def set_user_def add_ledger_def
        split: option.splits tx_fate.splits)

lemma processed_update_user:
  "update_user s uid f = Inr s' \<Longrightarrow> processed_webhooks s' = processed_webhooks s"
  by (auto simp: update_user_def split: option.splits)

lemma processed_onPayment:
  "case onPayment s fate ev of
     Inl (msg, s1) \<Rightarrow> processed_webhooks s1 = processed_webhooks s
   | Inr s1 \<Rightarrow> processed_webhooks s1 = processed_webhooks s"
  by (auto simp: onPayment_def Let_def processed_addCredits processed_update_user
        split: option.splits sum.splits)

lemma processed_onRefund:
  "case onRefund s fate ev of
     Inl (msg, s1) \<Rightarrow> processed_webhooks s1 = processed_webhooks s
   | Inr s1 \<Rightarrow> processed_webhooks s1 = processed_webhooks s"
  by (auto simp: onRefund_def processed_addCredits split: option.splits)

lemma processed_onCancel:
  "case onCancel s ev of
     Inl (msg, s1) \<Rightarrow> processed_webhooks s1 = processed_webhooks s
   | Inr s1 \<Rightarrow> processed_webhooks s1 = processed_webhooks s"
  by (auto simp: onCancel_def processed_update_user split: option.splits sum.splits)

lemma processed_applyEvent:
  "case applyEvent s fate ev of
     Inl (msg, s1) \<Rightarrow> processed_webhooks s1 = processed_webhooks s
   | Inr s1 \<Rightarrow> processed_webhooks s1 = processed_webhooks s"
  using processed_onPayment[of s fate ev] processed_onRefund[of s fate ev] processed_onCancel[of s ev]
  by (simp add: applyEvent_def)

lemma deductBody_buffers:
  assumes "map_of (users s) uid = Some d" "or_int (credits_balance d) 0 = b" "\<not> b < amt"
  shows "deductBody uid amt desc key s =
           Inr (b - amt,
                [TxUpdateUser uid (\<lambda>x. x\<lparr>credits_balance := Some (b - amt)\<rparr>),
                 TxSetLedger (deductionEntry uid amt desc key (b - amt))])"
  using assms by (simp add: deductBody_def Let_def deductionEntry_def)

lemma refund_not_payment: "isRefundEvent t \<Longrightarrow> \<not> isPaymentEvent t"
  by (auto simp: isRefundEvent_def isPaymentEvent_def)

lemma apply_twice:
  assumes "db" "processed_webhooks s (event_id ev) = None" "applyEvent s fate1 ev = Inr t"
  shows "twiceGives db s fate1 isValid fate2 ev (entriesForEvent t (event_id ev))"
proof -
  let ?s1 = "markWebhookProcessed db t (event_id ev) (event_type ev)"
  have 1: "snd (paypalWebhook db s True fate1 ev) = ?s1"
    using assms by (simp add: paypalWebhook_def isWebhookProcessed_def)
  have p: "processed_webhooks ?s1 (event_id ev)
             = Some \<lparr>eventId = event_id ev, eventType = event_type ev\<rparr>"
    using assms(1) by (simp add: markWebhookProcessed_def)
  then have 2: "snd (paypalWebhook db ?s1 isValid fate2 ev) = ?s1"
    by (intro webhook_replay) simp
  have e: "entriesForEvent ?s1 (event_id ev) = entriesForEvent t (event_id ev)"
    by (simp add: entriesForEvent_def markWebhookProcessed_def)
  show ?thesis
    unfolding twiceGives_def by (simp only: Let_def 1 2 p e)
qed

lemma onPayment_grants:
  assumes "resource_id ev = Some sub" "sub \<noteq> []"
    "(if truthy (resource_custom_id ev) then resource_custom_id ev
      else (case users_by_subscription s sub of
              None \<Rightarrow> resource_custom_id ev
            | Some (k, u) \<Rightarrow> Some k)) = Some uid" "uid \<noteq> []"
    "\<not> ledger_has_key s (''paypal_'' @ event_id ev)"
  shows "\<exists>s1. onPayment s Commits ev = Inr s1
           \<and> credits_ledger s1 = credits_ledger s @ [purchaseEntry ev uid (max 0 (balance_of s uid + 40))]"
proof -
  obtain d where a: "snd (addCredits True s Commits uid PLAN_CREDITS_pro ''purchase''
                        (''Pro subscription payment ('' @ event_type ev @ '')'')
                        (''paypal_'' @ event_id ev) (Some (event_id ev)))
       = add_ledger (set_user s uid d) (purchaseEntry ev uid (max 0 (balance_of s uid + 40)))"
    using addCredits_commit[OF assms(5), of uid PLAN_CREDITS_pro "''purchase''"
        "''Pro subscription payment ('' @ event_type ev @ '')''" "Some (event_id ev)"]
    by (auto simp: purchaseEntry_def PLAN_CREDITS_pro_def)
  show ?thesis
    using assms(1-4) a
    by (simp add: onPayment_def Let_def update_user_def add_ledger_def set_user_def
          update_conv')
qed

lemma onRefund_grants:
  assumes "resource_id ev = Some sub" "sub \<noteq> []" "users_by_subscription s sub = Some (uid, u)"
    "\<not> ledger_has_key s (''paypal_refund_'' @ event_id ev)"
  shows "\<exists>s1. onRefund s Commits ev = Inr s1
           \<and> credits_ledger s1 = credits_ledger s @ [refundEntry ev uid (max 0 (balance_of s uid - 40))]"
proof -
  obtain d where a: "snd (addCredits True s Commits uid (- PLAN_CREDITS_pro) ''refund''
                        (''Payment refunded/reversed ('' @ event_type ev @ '')'')
                        (''paypal_refund_'' @ event_id ev) (Some (event_id ev)))
       = add_ledger (set_user s uid d) (refundEntry ev uid (max 0 (balance_of s uid - 40)))"
    using addCredits_commit[OF assms(4), of uid "- PLAN_CREDITS_pro" "''refund''"
        "''Payment refunded/reversed ('' @ event_type ev @ '')''" "Some (event_id ev)"]
    by (auto simp: refundEntry_def PLAN_CREDITS_pro_def)
  show ?thesis
    using assms(1-3) a
    by (simp add: onRefund_def add_ledger_def set_user_def)
qed

lemma onCancel_no_entry:
  "\<exists>s1. onCancel s ev = Inr s1 \<and> credits_ledger s1 = credits_ledger s"
proof (cases "users_by_subscription s (case resource_id ev of None \<Rightarrow> [] | Some x \<Rightarrow> x)")
  case None
  then show ?thesis by (auto simp: onCancel_def split: option.splits)
next
  case (Some p)
  obtain uid u where p: "p = (uid, u)" by (cases p)
  show ?thesis
    using Some p by_subscription_exists[of s _ uid u]
    by (auto simp: onCancel_def update_user_def split: option.splits)
qed

lemma entries_after_append:
  assumes "entriesForEvent s i = []" "credits_ledger t = credits_ledger s @ [e]"
    "paypalEventId e = Some i"
  shows "entriesForEvent t i = [e]"
  using assms by (simp add: entriesForEvent_def)

lemma entries_same_ledger:
  "credits_ledger t = credits_ledger s \<Longrightarrow> entriesForEvent t i = entriesForEvent s i"
  by (simp add: entriesForEvent_def)

lemma apply_no_entry:
  assumes "(\<not> isPaymentEvent (event_type ev) \<and> \<not> isRefundEvent (event_type ev))
         \<or> \<not> truthy (resource_id ev)
         \<or> (isRefundEvent (event_type ev) \<and> resource_id ev = Some sub
             \<and> users_by_subscription s sub = None)
         \<or> (isPaymentEvent (event_type ev) \<and> resource_id ev = Some sub
             \<and> \<not> truthy (resource_custom_id ev) \<and> users_by_subscription s sub = None)"
  shows "\<exists>t. applyEvent s fate ev = Inr t \<and> credits_ledger t = credits_ledger s"
proof -
  consider (other) "\<not> isPaymentEvent (event_type ev)" "\<not> isRefundEvent (event_type ev)"
    | (nosub) "\<not> truthy (resource_id ev)"
    | (refund) "isRefundEvent (event_type ev)" "resource_id ev = Some sub"
        "users_by_subscription s sub = None"
    | (pay) "isPaymentEvent (event_type ev)" "resource_id ev = Some sub"
        "\<not> truthy (resource_custom_id ev)" "users_by_subscription s sub = None"
    using assms by auto
  then show ?thesis
  proof cases
    case other
    then show ?thesis
      using onCancel_no_entry[of s ev] by (simp add: applyEvent_def)
  next
    case nosub
    then have "onPayment s fate ev = Inr s" "onRefund s fate ev = Inr s" "onCancel s ev = Inr s"
      by (auto simp: onPayment_def onRefund_def onCancel_def truthy_def split: option.splits)
    then show ?thesis by (simp add: applyEvent_def)
  next
    case refund
    then have "onRefund s fate ev = Inr s"
      by (simp add: onRefund_def)
    then show ?thesis
      using refund(1) refund_not_payment by (simp add: applyEvent_def)
  next
    case pay
    then have "onPayment s fate ev = Inr s"
      by (auto simp: onPayment_def truthy_def Let_def split: option.splits)
    then show ?thesis
      using pay(1) by (simp add: applyEvent_def)
  qed
qed

section \<open>The claims\<close>

subsection \<open>C1: ledger sum and balance\<close>

text \<open>
  C1 (as amended). For every user \<open>v\<close>, if the sum of the \<^verbatim>\<open>amount\<close> fields of the user's
  ledger entries equals the user's balance before an operation, it does so afterwards,
  for these operations on any user: \<^verbatim>\<open>getCreditsBalance\<close> when the manual-Pro correction
  does not apply (lazy initialisation included), \<^verbatim>\<open>deductCredits\<close> always,
  \<^verbatim>\<open>addCredits\<close> when the balance plus the amount is not negative (no clamping), and the
  webhook route when the balance is not negative and, for a refund event, at least the
  Pro allotment. The manual-Pro correction and a clamped grant change the balance by
  another amount than the ledger records.
\<close>

theorem ledger_sum_preserved:
  assumes "ledger_matches_balance s v"
  shows "(\<not> manualProApplies s u1 \<longrightarrow> ledger_matches_balance (snd (getCreditsBalance db s u1)) v)
       \<and> ledger_matches_balance (snd (deductCredits db s fate u2 a2 d2 k2)) v
       \<and> (0 \<le> balance_of s u3 + a3 \<longrightarrow>
            ledger_matches_balance (snd (addCredits db s fate u3 a3 t3 d3 k3 e3)) v)
       \<and> (0 \<le> balance_of s v \<and> (isRefundEvent (event_type ev) \<longrightarrow> PLAN_CREDITS_pro \<le> balance_of s v) \<longrightarrow>
            ledger_matches_balance (snd (paypalWebhook db s isValid fate ev)) v)"
  using get_preserves[OF assms, of u1 db] deduct_preserves[OF assms, of db fate u2 a2 d2 k2]
    add_preserves_gen[OF assms, of u3 a3 db fate t3 d3 k3 e3]
    webhook_preserves[OF assms, of ev db isValid fate]
  by auto

text \<open>
  The claim as stated fails on the two paths left out above: the manual-Pro correction
  sets the balance to 40 and writes no entry, and a refund of 40 against a balance of 3
  records \<open>-40\<close> while the balance only falls to 0.
\<close>

theorem ledger_sum_counterexample:
  "ledger_matches_balance pro_by_hand_store ''alice''
   \<and> \<not> ledger_matches_balance (snd (getCreditsBalance True pro_by_hand_store ''alice'')) ''alice''
   \<and> ledger_matches_balance alice_store ''alice''
   \<and> \<not> ledger_matches_balance
          (snd (addCredits True alice_store Commits ''alice'' (- 40) ''refund'' ''Payment refunded''
                  ''paypal_refund_E1'' (Some ''E1''))) ''alice''"
  by (simp add: ledger_matches_balance_def ledger_sum_def balance_of_def pro_by_hand_store_def
        alice_store_def getCreditsBalance_def addCredits_def run_addBody
        ledger_has_key_def set_user_def add_ledger_def truthy_def or_int_def or_str_def
        PLAN_CREDITS_pro_def Let_def)

theorem ledger_sum_preserved_witness:
  "ledger_matches_balance alice_store ''alice''
   \<and> \<not> manualProApplies alice_store ''alice''
   \<and> 0 \<le> balance_of alice_store ''alice'' + 40
   \<and> 0 \<le> balance_of alice_store ''alice''
   \<and> \<not> isRefundEvent (event_type payment_event)
   \<and> ledger_matches_balance (snd (getCreditsBalance True alice_store ''alice'')) ''alice''
   \<and> ledger_matches_balance
        (snd (deductCredits True alice_store Commits ''alice'' 1 ''AI Chat Interaction'' None)) ''alice''
   \<and> ledger_matches_balance
        (snd (addCredits True alice_store Commits ''alice'' 40 ''purchase'' ''Pro'' ''paypal_E1''
                (Some ''E1''))) ''alice''
   \<and> ledger_matches_balance (snd (paypalWebhook True alice_store True Commits payment_event)) ''alice''"
proof -
  have h: "ledger_matches_balance alice_store ''alice''"
    by (simp add: ledger_matches_balance_def ledger_sum_def balance_of_def alice_store_def or_int_def)
  have m: "\<not> manualProApplies alice_store ''alice''"
    by (simp add: manualProApplies_def alice_store_def)
  have b: "0 \<le> balance_of alice_store ''alice'' + 40" "0 \<le> balance_of alice_store ''alice''"
    by (simp_all add: balance_of_def alice_store_def or_int_def)
  have r: "\<not> isRefundEvent (event_type payment_event)"
    by (simp add: isRefundEvent_def payment_event_def)
  show ?thesis
    using h m b r
      ledger_sum_preserved[OF h, where ?u1.0 = "''alice''" and db = True and fate = Commits
        and ?u2.0 = "''alice''" and ?a2.0 = 1 and ?d2.0 = "''AI Chat Interaction''" and ?k2.0 = None
        and ?u3.0 = "''alice''" and ?a3.0 = 40 and ?t3.0 = "''purchase''" and ?d3.0 = "''Pro''"
        and ?k3.0 = "''paypal_E1''" and ?e3.0 = "Some ''E1''" and ev = payment_event
        and isValid = True]
    by simp
qed

subsection \<open>C2: replayed deductions\<close>

text \<open>
  C2 (as amended). With the store handle present and a non-empty idempotency key \<open>k\<close>:
  if some ledger entry already carries \<open>k\<close>, \<^verbatim>\<open>deductCredits\<close> changes nothing and
  resolves to \<^verbatim>\<open>{success: true, duplicate: true}\<close>, which carries no balance; and two
  successive calls with a fresh key against a balance \<open>n\<close> that covers the amount, the
  first one committing, decrement the balance once and append one entry: the first call
  returns \<open>newBalance = n - amt\<close>, the second is a replay.
\<close>

theorem deduct_twice_same_key:
  assumes "db" "k \<noteq> []"
  shows "(ledger_has_key s k \<longrightarrow>
            deductCredits db s fate uid amt desc (Some k) = (replayResult, s))
       \<and> (\<not> ledger_has_key s k \<and> map_of (users s) uid = Some d \<and> credits_balance d = Some n \<and> amt \<le> n \<longrightarrow>
            (let (r1, s1) = deductCredits db s Commits uid amt desc (Some k);
                 (r2, s2) = deductCredits db s1 fate uid amt desc (Some k)
             in r1 = \<lparr>success = True, newBalance = Some (n - amt), duplicate = False, error = None\<rparr>
                \<and> r2 = replayResult \<and> s2 = s1
                \<and> map_of (users s2) uid = Some (d\<lparr>credits_balance := Some (n - amt)\<rparr>)
                \<and> credits_ledger s2 = credits_ledger s @ [deductionEntry uid amt desc (Some k) (n - amt)]))"
proof (intro conjI impI)
  assume "ledger_has_key s k"
  then show "deductCredits db s fate uid amt desc (Some k) = (replayResult, s)"
    using assms deduct_replay by simp
next
  assume a: "\<not> ledger_has_key s k \<and> map_of (users s) uid = Some d \<and> credits_balance d = Some n \<and> amt \<le> n"
  let ?s1 = "add_ledger (set_user s uid (d\<lparr>credits_balance := Some (n - amt)\<rparr>))
              (deductionEntry uid amt desc (Some k) (n - amt))"
  have b: "or_int (credits_balance d) 0 = n" using a by (simp add: or_int_0)
  have 1: "deductCredits db s Commits uid amt desc (Some k) =
     (\<lparr>success = True, newBalance = Some (n - amt), duplicate = False, error = None\<rparr>, ?s1)"
    using deduct_commit[where db = db and key = "Some k" and s = s and uid = uid and d = d
        and amt = amt and desc = desc] assms a b by simp
  have "ledger_has_key ?s1 k"
    by (simp add: has_key_after_add deductionEntry_def)
  then have 2: "deductCredits db ?s1 fate uid amt desc (Some k) = (replayResult, ?s1)"
    using assms deduct_replay by simp
  show "let (r1, s1) = deductCredits db s Commits uid amt desc (Some k);
            (r2, s2) = deductCredits db s1 fate uid amt desc (Some k)
        in r1 = \<lparr>success = True, newBalance = Some (n - amt), duplicate = False, error = None\<rparr>
           \<and> r2 = replayResult \<and> s2 = s1
           \<and> map_of (users s2) uid = Some (d\<lparr>credits_balance := Some (n - amt)\<rparr>)
           \<and> credits_ledger s2 = credits_ledger s @ [deductionEntry uid amt desc (Some k) (n - amt)]"
    by (simp only: 1 2 Let_def prod.case) (simp add: add_ledger_def set_user_def update_conv')
qed

text \<open>
  The claim as stated fails: a replay returns no balance, so the two calls do not return
  the same \<^verbatim>\<open>newBalance\<close>; and the empty string, being falsy, is never looked up, so a
  call with that key deducts again although an entry carries it.
\<close>

theorem deduct_replay_counterexample:
  "balance_of alice_store ''alice'' = 3
   \<and> ledger_has_key alice_store ''init_alice''
   \<and> newBalance (fst (deductCredits True alice_store Commits ''alice'' 1 ''Study plan generation''
                         (Some ''init_alice''))) \<noteq> Some 3
   \<and> \<not> ledger_has_key alice_store ''gen_1''
   \<and> newBalance (fst (deductCredits True alice_store Commits ''alice'' 1 ''Study plan generation''
                         (Some ''gen_1''))) = Some 2
   \<and> newBalance (fst (deductCredits True
                         (snd (deductCredits True alice_store Commits ''alice'' 1
                                 ''Study plan generation'' (Some ''gen_1'')))
                         Commits ''alice'' 1 ''Study plan generation'' (Some ''gen_1''))) = None
   \<and> ledger_has_key empty_key_store []
   \<and> balance_of empty_key_store ''alice'' = 2
   \<and> balance_of (snd (deductCredits True empty_key_store Commits ''alice'' 1 ''AI Chat Interaction''
                         (Some []))) ''alice'' = 1"
  by (simp add: balance_of_def alice_store_def empty_key_store_def initEntry_def deductionEntry_def
        or_int_def ledger_has_key_def deductCredits_def run_deductBody
        set_user_def add_ledger_def Let_def)

theorem deduct_twice_same_key_witness:
  "True \<and> ''gen_1'' \<noteq> [] \<and> \<not> ledger_has_key alice_store ''gen_1''
   \<and> ledger_has_key alice_store ''init_alice''
   \<and> deductCredits True alice_store Commits ''alice'' 1 ''x'' (Some ''init_alice'') = (replayResult, alice_store)
   \<and> snd (deductCredits True (snd (deductCredits True alice_store Commits ''alice'' 1 ''x'' (Some ''gen_1'')))
            Commits ''alice'' 1 ''x'' (Some ''gen_1''))
       = snd (deductCredits True alice_store Commits ''alice'' 1 ''x'' (Some ''gen_1''))
   \<and> credits_ledger (snd (deductCredits True (snd (deductCredits True alice_store Commits ''alice'' 1 ''x'' (Some ''gen_1'')))
            Commits ''alice'' 1 ''x'' (Some ''gen_1'')))
       = credits_ledger alice_store @ [deductionEntry ''alice'' 1 ''x'' (Some ''gen_1'') 2]"
proof -
  have h: "\<not> ledger_has_key alice_store ''gen_1''" "ledger_has_key alice_store ''init_alice''"
    by (simp_all add: ledger_has_key_def alice_store_def)
  have u: "map_of (users alice_store) ''alice'' = Some \<lparr>plan = Some ''free'', credits_balance = Some 3,
                            paypalSubscriptionId = None, manualProCreditsGranted = False\<rparr>"
    by (simp add: alice_store_def)
  have k: "''gen_1'' \<noteq> []" "''init_alice'' \<noteq> []" by simp_all
  note A = deduct_twice_same_key[where db = True and k = "''init_alice''" and s = alice_store
         and fate = Commits and uid = "''alice''" and amt = 1 and desc = "''x''"]
  note B = deduct_twice_same_key[where db = True and k = "''gen_1''" and s = alice_store
         and fate = Commits and uid = "''alice''" and amt = 1 and desc = "''x''" and n = 3
         and d = "\<lparr>plan = Some ''free'', credits_balance = Some 3,
                   paypalSubscriptionId = None, manualProCreditsGranted = False\<rparr>"]
  show ?thesis
    using h u A B
    by (auto simp: Let_def split: prod.splits)
qed

subsection \<open>C3: the processed-webhook record and failed grants\<close>

text \<open>
  C3. The record of an event is meant to say that the event's credits have been applied.
  The code breaks this when the transaction of \<^verbatim>\<open>addCredits\<close> is rejected by the store:
  \<^verbatim>\<open>addCredits\<close> catches the error and resolves to \<^verbatim>\<open>{success: false}\<close>, the route does
  not look at that result, updates the subscription and writes the record. Here a free
  user with 3 credits pays for Pro: the event ends up recorded as processed, the plan is
  \<^verbatim>\<open>pro\<close>, the ledger and the balance are as before, and a redelivery of the event is
  skipped as already processed.
\<close>

theorem webhook_records_event_whose_grant_failed:
  "paypalWebhook True alice_store True (Aborts ''UNAVAILABLE'') payment_event
     = ((200, ''OK''), aborted_payment_store)
   \<and> processed_webhooks aborted_payment_store ''E1'' \<noteq> None
   \<and> credits_ledger aborted_payment_store = credits_ledger alice_store
   \<and> balance_of aborted_payment_store ''alice'' = balance_of alice_store ''alice''
   \<and> paypalWebhook True aborted_payment_store True Commits payment_event
       = ((200, ''OK''), aborted_payment_store)"
  by (simp add: paypalWebhook_def isWebhookProcessed_def markWebhookProcessed_def applyEvent_def
        isPaymentEvent_def onPayment_def addCredits_def run_addBody
        update_user_def set_user_def add_ledger_def ledger_has_key_def truthy_def or_int_def
        or_str_def Let_def alice_store_def payment_event_def aborted_payment_store_def
        initEntry_def balance_of_def PLAN_CREDITS_pro_def)

text \<open>
  What the route does keep: an exception that leaves the \<^verbatim>\<open>switch\<close> skips
  \<^verbatim>\<open>markWebhookProcessed\<close>. For a user without a document the rejected transaction is
  followed by an \<^verbatim>\<open>update\<close> that throws, and no record is written.
\<close>

lemma webhook_exception_writes_no_record:
  assumes "applyEvent s fate ev = Inl (msg, s1)" "processed_webhooks s (event_id ev) = None"
  shows "processed_webhooks (snd (paypalWebhook db s isValid fate ev)) (event_id ev) = None"
  using assms processed_applyEvent[of s fate ev]
  by (simp add: paypalWebhook_def isWebhookProcessed_def)

lemma webhook_exception_example:
  "applyEvent empty_store (Aborts ''UNAVAILABLE'') payment_event
     = Inl (''No document to update'', empty_store)
   \<and> paypalWebhook True empty_store True (Aborts ''UNAVAILABLE'') payment_event
       = ((200, ''OK''), empty_store)"
  by (simp add: paypalWebhook_def isWebhookProcessed_def applyEvent_def
        isPaymentEvent_def onPayment_def addCredits_def run_addBody
        update_user_def set_user_def add_ledger_def ledger_has_key_def truthy_def
        Let_def empty_store_def payment_event_def PLAN_CREDITS_pro_def)


subsection \<open>C4: insufficient balance, and the two writes of a deduction\<close>

text \<open>
  C4 (as amended). For an existing account with balance \<open>b\<close>: a call of \<^verbatim>\<open>deductCredits\<close>
  whose key is a replay changes nothing and resolves to the duplicate result, whatever
  the amount; a call that is not a replay and asks for more than \<open>b\<close> fails with
  \<^verbatim>\<open>'Insufficient credits'\<close> and leaves the store as it was. When the balance covers the
  amount, the function handed to \<^verbatim>\<open>db.runTransaction\<close> buffers both writes, the balance
  \<open>b - amt\<close> and the deduction entry with \<open>balanceAfter = b - amt\<close>, in the one
  transaction. Whatever the store decides about that transaction, the call either
  succeeds as a non-duplicate, and then the store holds both writes, or it leaves the
  store unchanged: there is no outcome with one write and not the other.
\<close>

theorem deduct_insufficient_or_atomic:
  assumes "db" "map_of (users s) uid = Some d" "or_int (credits_balance d) 0 = b"
  shows "(replayed s key \<longrightarrow> deductCredits db s fate uid amt desc key = (replayResult, s))
       \<and> (\<not> replayed s key \<and> b < amt \<longrightarrow>
            deductCredits db s fate uid amt desc key = (insufficientResult, s))
       \<and> (\<not> b < amt \<longrightarrow>
            deductBody uid amt desc key s =
              Inr (b - amt,
                   [TxUpdateUser uid (\<lambda>x. x\<lparr>credits_balance := Some (b - amt)\<rparr>),
                    TxSetLedger (deductionEntry uid amt desc key (b - amt))]))
       \<and> (case deductCredits db s fate uid amt desc key of
            (r, s') \<Rightarrow>
              if success r \<and> \<not> duplicate r
              then newBalance r = Some (b - amt)
                   \<and> s' = add_ledger (set_user s uid (d\<lparr>credits_balance := Some (b - amt)\<rparr>))
                            (deductionEntry uid amt desc key (b - amt))
              else s' = s)"
  using deductBody_buffers[OF assms(2,3), of amt desc key]
  by (simp add: deduct_outcome[OF assms] replayResult_def insufficientResult_def split: tx_fate.splits)

text \<open>
  The claim as stated fails for a retried call: with the balance used up, the retry of
  the last deduction under its key asks for more than the balance and resolves to the
  duplicate success, not to \<^verbatim>\<open>'Insufficient credits'\<close>.
\<close>

theorem deduct_insufficient_counterexample:
  "map_of (users used_up_store) ''alice''
     = Some \<lparr>plan = Some ''free'', credits_balance = Some 0, paypalSubscriptionId = None,
             manualProCreditsGranted = False\<rparr>
   \<and> (0::int) < 1
   \<and> deductCredits True used_up_store Commits ''alice'' 1 ''Study plan generation: c.pdf''
        (Some ''gen_3'')
       = (\<lparr>success = True, newBalance = None, duplicate = True, error = None\<rparr>, used_up_store)
   \<and> error (fst (deductCredits True used_up_store Commits ''alice'' 1
                    ''Study plan generation: c.pdf'' (Some ''gen_3''))) \<noteq> Some ''Insufficient credits''"
  by (simp add: used_up_store_def initEntry_def deductionEntry_def deductCredits_def
        ledger_has_key_def)

theorem deduct_insufficient_or_atomic_witness:
  "map_of (users alice_store) ''alice'' = Some freeAccount
   \<and> or_int (credits_balance freeAccount) 0 = 3
   \<and> replayed alice_store (Some ''init_alice'')
   \<and> deductCredits True alice_store Commits ''alice'' 5 ''Study plan generation'' (Some ''init_alice'')
       = (replayResult, alice_store)
   \<and> \<not> replayed alice_store (Some ''gen_1'') \<and> (3::int) < 5
   \<and> deductCredits True alice_store Commits ''alice'' 5 ''Study plan generation'' (Some ''gen_1'')
       = (insufficientResult, alice_store)
   \<and> \<not> (3::int) < 1
   \<and> deductBody ''alice'' 1 ''Study plan generation'' (Some ''gen_1'') alice_store
       = Inr (2, [TxUpdateUser ''alice'' (\<lambda>x. x\<lparr>credits_balance := Some 2\<rparr>),
                  TxSetLedger (deductionEntry ''alice'' 1 ''Study plan generation'' (Some ''gen_1'') 2)])
   \<and> snd (deductCredits True alice_store Commits ''alice'' 1 ''Study plan generation'' (Some ''gen_1''))
       = add_ledger (set_user alice_store ''alice'' (freeAccount\<lparr>credits_balance := Some 2\<rparr>))
           (deductionEntry ''alice'' 1 ''Study plan generation'' (Some ''gen_1'') 2)"
proof -
  have u: "map_of (users alice_store) ''alice'' = Some freeAccount"
    by (simp add: alice_store_def freeAccount_def)
  have b: "or_int (credits_balance freeAccount) 0 = 3"
    by (simp add: freeAccount_def or_int_def)
  have r: "\<not> replayed alice_store (Some ''gen_1'')" "replayed alice_store (Some ''init_alice'')"
    by (simp_all add: replayed_def ledger_has_key_def alice_store_def)
  have t: "True" by simp
  note A = deduct_insufficient_or_atomic[OF t u b, where key = "Some ''gen_1''" and amt = 5
      and fate = Commits and desc = "''Study plan generation''"]
  note B = deduct_insufficient_or_atomic[OF t u b, where key = "Some ''gen_1''" and amt = 1
      and fate = Commits and desc = "''Study plan generation''"]
  note C = deduct_insufficient_or_atomic[OF t u b, where key = "Some ''init_alice''" and amt = 5
      and fate = Commits and desc = "''Study plan generation''"]
  have s: "success (fst (deductCredits True alice_store Commits ''alice'' 1 ''Study plan generation''
                           (Some ''gen_1'')))
           \<and> \<not> duplicate (fst (deductCredits True alice_store Commits ''alice'' 1
                                  ''Study plan generation'' (Some ''gen_1'')))"
    by (simp add: deduct_outcome[OF t u b] r)
  show ?thesis
    using u b r A B C s by (auto split: prod.splits if_splits)
qed

subsection \<open>C5: a grant never leaves a negative balance\<close>

text \<open>
  C5. With balance \<open>b\<close> (0 for a user without an account) and any integer amount, a
  non-duplicate \<^verbatim>\<open>addCredits\<close> whose transaction commits returns and stores the balance
  \<open>max 0 (b + amt)\<close>: never negative, and exactly 0 when \<open>b + amt < 0\<close>.
\<close>

theorem grant_clamps_at_zero:
  assumes "db" "\<not> ledger_has_key s key"
  shows "case addCredits db s Commits uid amt ty desc key evId of
           (r, s') \<Rightarrow>
             r = \<lparr>success = True, newBalance = Some (max 0 (balance_of s uid + amt)),
                  duplicate = False, error = None\<rparr>
             \<and> map_option credits_balance (map_of (users s') uid)
                 = Some (Some (max 0 (balance_of s uid + amt)))
             \<and> balance_of s' uid = max 0 (balance_of s uid + amt)
             \<and> 0 \<le> balance_of s' uid
             \<and> (balance_of s uid + amt < 0 \<longrightarrow> balance_of s' uid = 0)"
  using assms
  by (auto simp: addCredits_def run_addBody Let_def balance_of_def
        set_user_def add_ledger_def update_conv' or_int_0 split: option.splits)

theorem grant_clamps_at_zero_witness:
  "\<not> ledger_has_key alice_store ''paypal_refund_E1''
   \<and> balance_of alice_store ''alice'' + (- 40) < 0
   \<and> newBalance (fst (addCredits True alice_store Commits ''alice'' (- 40) ''refund''
                         ''Payment refunded'' ''paypal_refund_E1'' (Some ''E1''))) = Some 0
   \<and> balance_of (snd (addCredits True alice_store Commits ''alice'' (- 40) ''refund''
                         ''Payment refunded'' ''paypal_refund_E1'' (Some ''E1''))) ''alice'' = 0"
proof -
  have k: "\<not> ledger_has_key alice_store ''paypal_refund_E1''"
    by (simp add: ledger_has_key_def alice_store_def)
  have b: "balance_of alice_store ''alice'' = 3"
    by (simp add: balance_of_def alice_store_def or_int_def)
  have t: "True" by simp
  show ?thesis
    using k b grant_clamps_at_zero[OF t k, where uid = "''alice''" and amt = "- 40"
        and ty = "''refund''" and desc = "''Payment refunded''" and evId = "Some ''E1''"]
    by (auto split: prod.splits)
qed

subsection \<open>C6: the first balance query creates the free account\<close>

text \<open>
  C6. For a user id without an account, \<^verbatim>\<open>getCreditsBalance\<close> creates the account with
  plan \<^verbatim>\<open>free\<close> and 3 credits, appends exactly one ledger entry, a grant of 3 with the
  idempotency key \<^verbatim>\<open>init_\<close> followed by the user id, and returns the new account.
\<close>

theorem first_getBalance_creates_free_account:
  assumes "db" "map_of (users s) uid = None"
  shows "case getCreditsBalance db s uid of
           (r, s') \<Rightarrow>
             r = Some (uid, freeAccount)
             \<and> map_of (users s') uid = Some freeAccount
             \<and> credits_ledger s' = credits_ledger s @ [initEntry uid]
             \<and> s' = add_ledger (set_user s uid freeAccount) (initEntry uid)"
  using assms
  by (simp add: getCreditsBalance_def Let_def freeAccount_def initEntry_def PLAN_CREDITS_free_def
        set_user_def add_ledger_def update_conv')

theorem first_getBalance_creates_free_account_witness:
  "map_of (users empty_store) ''alice'' = None
   \<and> getCreditsBalance True empty_store ''alice'' = (Some (''alice'', freeAccount), alice_store)
   \<and> plan freeAccount = Some ''free'' \<and> credits_balance freeAccount = Some 3
   \<and> credits_ledger alice_store = [initEntry ''alice'']
   \<and> idempotencyKey (initEntry ''alice'') = Some ''init_alice''"
proof -
  have u: "map_of (users empty_store) ''alice'' = None"
    by (simp add: empty_store_def)
  have t: "True" by simp
  have e: "add_ledger (set_user empty_store ''alice'' freeAccount) (initEntry ''alice'') = alice_store"
    by (simp add: add_ledger_def set_user_def empty_store_def alice_store_def freeAccount_def
          initEntry_def)
  show ?thesis
    using u e first_getBalance_creates_free_account[OF t u]
    by (auto simp: freeAccount_def initEntry_def alice_store_def split: prod.splits)
qed

subsection \<open>C7: replaying a webhook event\<close>

text \<open>
  C7 (as amended). With the store handle present, an event whose id has a record in
  \<^verbatim>\<open>processed_webhooks\<close> is answered without any write. When an event new to the store
  is delivered twice, the first delivery verified, the second delivery leaves the store
  as the first left it, with the one record under the event id, and the ledger entries
  that refer to the event are:
  exactly one purchase entry, for a payment event with a subscription id whose user is
  named by \<^verbatim>\<open>custom_id\<close> or found by the subscription id, its grant committing;
  exactly one refund entry, for a refund or reversal event whose user is found by the
  subscription id, its grant committing;
  and none, for a cancellation, suspension, expiry or unrecognised event, for an event
  without a subscription id, and for a payment or refund whose user is not found.
\<close>

theorem webhook_replay_is_idempotent:
  assumes "db"
  shows "(processed_webhooks s (event_id ev) \<noteq> None \<longrightarrow>
            snd (paypalWebhook db s isValid fate ev) = s)
       \<and> (processed_webhooks s (event_id ev) = None \<and> entriesForEvent s (event_id ev) = [] \<longrightarrow>
            (isPaymentEvent (event_type ev) \<and> resource_id ev = Some sub \<and> sub \<noteq> []
             \<and> resource_custom_id ev = Some uid \<and> uid \<noteq> []
             \<and> \<not> ledger_has_key s (''paypal_'' @ event_id ev) \<longrightarrow>
               twiceGives db s Commits isValid fate ev
                 [purchaseEntry ev uid (max 0 (balance_of s uid + 40))])
          \<and> (isPaymentEvent (event_type ev) \<and> resource_id ev = Some sub \<and> sub \<noteq> []
             \<and> \<not> truthy (resource_custom_id ev) \<and> users_by_subscription s sub = Some (uid, u)
             \<and> uid \<noteq> [] \<and> \<not> ledger_has_key s (''paypal_'' @ event_id ev) \<longrightarrow>
               twiceGives db s Commits isValid fate ev
                 [purchaseEntry ev uid (max 0 (balance_of s uid + 40))])
          \<and> (isRefundEvent (event_type ev) \<and> resource_id ev = Some sub \<and> sub \<noteq> []
             \<and> users_by_subscription s sub = Some (uid, u)
             \<and> \<not> ledger_has_key s (''paypal_refund_'' @ event_id ev) \<longrightarrow>
               twiceGives db s Commits isValid fate ev
                 [refundEntry ev uid (max 0 (balance_of s uid - 40))])
          \<and> ((\<not> isPaymentEvent (event_type ev) \<and> \<not> isRefundEvent (event_type ev))
              \<or> \<not> truthy (resource_id ev)
              \<or> (isRefundEvent (event_type ev) \<and> resource_id ev = Some sub
                  \<and> users_by_subscription s sub = None)
              \<or> (isPaymentEvent (event_type ev) \<and> resource_id ev = Some sub
                  \<and> \<not> truthy (resource_custom_id ev) \<and> users_by_subscription s sub = None) \<longrightarrow>
               twiceGives db s fate1 isValid fate ev []))"
proof (intro conjI impI)
  assume "processed_webhooks s (event_id ev) \<noteq> None"
  then show "snd (paypalWebhook db s isValid fate ev) = s" by (rule webhook_replay)
next
  assume f: "processed_webhooks s (event_id ev) = None \<and> entriesForEvent s (event_id ev) = []"
    and h: "isPaymentEvent (event_type ev) \<and> resource_id ev = Some sub \<and> sub \<noteq> []
             \<and> resource_custom_id ev = Some uid \<and> uid \<noteq> []
             \<and> \<not> ledger_has_key s (''paypal_'' @ event_id ev)"
  then obtain t where t: "onPayment s Commits ev = Inr t"
      "credits_ledger t = credits_ledger s @ [purchaseEntry ev uid (max 0 (balance_of s uid + 40))]"
    using onPayment_grants[of ev sub s uid] by (auto simp: truthy_def)
  have "entriesForEvent t (event_id ev) = [purchaseEntry ev uid (max 0 (balance_of s uid + 40))]"
    using f t(2) by (intro entries_after_append[of s]) (simp_all add: purchaseEntry_def)
  moreover have "applyEvent s Commits ev = Inr t"
    using h t(1) by (simp add: applyEvent_def)
  ultimately show "twiceGives db s Commits isValid fate ev
                 [purchaseEntry ev uid (max 0 (balance_of s uid + 40))]"
    using apply_twice[OF assms, of s ev Commits t isValid fate] f by simp
next
  assume f: "processed_webhooks s (event_id ev) = None \<and> entriesForEvent s (event_id ev) = []"
    and h: "isPaymentEvent (event_type ev) \<and> resource_id ev = Some sub \<and> sub \<noteq> []
             \<and> \<not> truthy (resource_custom_id ev) \<and> users_by_subscription s sub = Some (uid, u)
             \<and> uid \<noteq> [] \<and> \<not> ledger_has_key s (''paypal_'' @ event_id ev)"
  then obtain t where t: "onPayment s Commits ev = Inr t"
      "credits_ledger t = credits_ledger s @ [purchaseEntry ev uid (max 0 (balance_of s uid + 40))]"
    using onPayment_grants[of ev sub s uid] by auto
  have "entriesForEvent t (event_id ev) = [purchaseEntry ev uid (max 0 (balance_of s uid + 40))]"
    using f t(2) by (intro entries_after_append[of s]) (simp_all add: purchaseEntry_def)
  moreover have "applyEvent s Commits ev = Inr t"
    using h t(1) by (simp add: applyEvent_def)
  ultimately show "twiceGives db s Commits isValid fate ev
                 [purchaseEntry ev uid (max 0 (balance_of s uid + 40))]"
    using apply_twice[OF assms, of s ev Commits t isValid fate] f by simp
next
  assume f: "processed_webhooks s (event_id ev) = None \<and> entriesForEvent s (event_id ev) = []"
    and h: "isRefundEvent (event_type ev) \<and> resource_id ev = Some sub \<and> sub \<noteq> []
             \<and> users_by_subscription s sub = Some (uid, u)
             \<and> \<not> ledger_has_key s (''paypal_refund_'' @ event_id ev)"
  then obtain t where t: "onRefund s Commits ev = Inr t"
      "credits_ledger t = credits_ledger s @ [refundEntry ev uid (max 0 (balance_of s uid - 40))]"
    using onRefund_grants[of ev sub s uid u] by auto
  have "entriesForEvent t (event_id ev) = [refundEntry ev uid (max 0 (balance_of s uid - 40))]"
    using f t(2) by (intro entries_after_append[of s]) (simp_all add: refundEntry_def)
  moreover have "applyEvent s Commits ev = Inr t"
    using h t(1) refund_not_payment by (simp add: applyEvent_def)
  ultimately show "twiceGives db s Commits isValid fate ev
                 [refundEntry ev uid (max 0 (balance_of s uid - 40))]"
    using apply_twice[OF assms, of s ev Commits t isValid fate] f by simp
next
  assume f: "processed_webhooks s (event_id ev) = None \<and> entriesForEvent s (event_id ev) = []"
    and h: "(\<not> isPaymentEvent (event_type ev) \<and> \<not> isRefundEvent (event_type ev))
              \<or> \<not> truthy (resource_id ev)
              \<or> (isRefundEvent (event_type ev) \<and> resource_id ev = Some sub
                  \<and> users_by_subscription s sub = None)
              \<or> (isPaymentEvent (event_type ev) \<and> resource_id ev = Some sub
                  \<and> \<not> truthy (resource_custom_id ev) \<and> users_by_subscription s sub = None)"
  obtain t where t: "applyEvent s fate1 ev = Inr t" "credits_ledger t = credits_ledger s"
    using apply_no_entry[OF h, of fate1] by auto
  have "entriesForEvent t (event_id ev) = []"
    using f entries_same_ledger[OF t(2)] by simp
  then show "twiceGives db s fate1 isValid fate ev []"
    using apply_twice[OF assms, of s ev fate1 t isValid fate] f t(1) by simp
qed

text \<open>
  The claim as stated fails for an event that grants nothing: a cancellation processed
  and delivered again has its record and no ledger entry.
\<close>

theorem webhook_replay_counterexample:
  "processed_webhooks subscribed_store ''E2'' = None
   \<and> processed_webhooks (snd (paypalWebhook True subscribed_store True Commits cancel_event)) ''E2''
       = Some \<lparr>eventId = ''E2'', eventType = ''BILLING.SUBSCRIPTION.CANCELLED''\<rparr>
   \<and> snd (paypalWebhook True (snd (paypalWebhook True subscribed_store True Commits cancel_event))
             True Commits cancel_event)
       = snd (paypalWebhook True subscribed_store True Commits cancel_event)
   \<and> entriesForEvent
        (snd (paypalWebhook True (snd (paypalWebhook True subscribed_store True Commits cancel_event))
                True Commits cancel_event)) ''E2'' = []"
  by (simp add: paypalWebhook_def isWebhookProcessed_def markWebhookProcessed_def applyEvent_def
        isPaymentEvent_def isRefundEvent_def isCancelEvent_def onCancel_def
        users_by_subscription_def update_user_def entriesForEvent_def
        subscribed_store_def cancel_event_def payment_event_def initEntry_def purchaseEntry_def)

theorem webhook_replay_is_idempotent_witness:
  "processed_webhooks subscribed_store (event_id payment_event) \<noteq> None
   \<and> snd (paypalWebhook True subscribed_store True Commits payment_event) = subscribed_store
   \<and> processed_webhooks alice_store (event_id payment_event) = None
   \<and> entriesForEvent alice_store (event_id payment_event) = []
   \<and> isPaymentEvent (event_type payment_event)
   \<and> resource_custom_id payment_event = Some ''alice''
   \<and> \<not> ledger_has_key alice_store (''paypal_'' @ event_id payment_event)
   \<and> twiceGives True alice_store Commits True Commits payment_event
        [purchaseEntry payment_event ''alice'' 43]
   \<and> isPaymentEvent (event_type renewal_event) \<and> \<not> truthy (resource_custom_id renewal_event)
   \<and> users_by_subscription subscribed_store ''S1'' = Some (''alice'', subscribed_doc)
   \<and> \<not> ledger_has_key subscribed_store (''paypal_'' @ event_id renewal_event)
   \<and> twiceGives True subscribed_store Commits True Commits renewal_event
        [purchaseEntry renewal_event ''alice'' 83]
   \<and> isRefundEvent (event_type refund_event)
   \<and> \<not> ledger_has_key subscribed_store (''paypal_refund_'' @ event_id refund_event)
   \<and> twiceGives True subscribed_store Commits True Commits refund_event
        [refundEntry refund_event ''alice'' 3]
   \<and> \<not> isPaymentEvent (event_type cancel_event) \<and> \<not> isRefundEvent (event_type cancel_event)
   \<and> twiceGives True subscribed_store Commits True Commits cancel_event []
   \<and> \<not> truthy (resource_id orphan_payment_event)
   \<and> twiceGives True subscribed_store Commits True Commits orphan_payment_event []
   \<and> isRefundEvent (event_type stray_refund_event)
   \<and> users_by_subscription subscribed_store ''S9'' = None
   \<and> twiceGives True subscribed_store Commits True Commits stray_refund_event []
   \<and> isPaymentEvent (event_type stray_payment_event)
   \<and> \<not> truthy (resource_custom_id stray_payment_event)
   \<and> twiceGives True subscribed_store Commits True Commits stray_payment_event []"
proof -
  have t: "True" by simp
  have a: "processed_webhooks subscribed_store (event_id payment_event) \<noteq> None"
    by (simp add: subscribed_store_def payment_event_def)
  have p1: "processed_webhooks alice_store (event_id payment_event) = None"
      "entriesForEvent alice_store (event_id payment_event) = []"
      "isPaymentEvent (event_type payment_event)"
      "resource_id payment_event = Some ''S1''" "resource_custom_id payment_event = Some ''alice''"
      "\<not> ledger_has_key alice_store (''paypal_'' @ event_id payment_event)"
      "balance_of alice_store ''alice'' = 3"
    by (simp_all add: alice_store_def payment_event_def entriesForEvent_def ledger_has_key_def
          isPaymentEvent_def balance_of_def or_int_def)
  have q: "users_by_subscription subscribed_store ''S1'' = Some (''alice'', subscribed_doc)"
      "users_by_subscription subscribed_store ''S9'' = None"
      "balance_of subscribed_store ''alice'' = 43"
    by (simp_all add: users_by_subscription_def subscribed_store_def subscribed_doc_def
          balance_of_def or_int_def)
  have fr: "processed_webhooks subscribed_store ''E2'' = None"
      "processed_webhooks subscribed_store ''E3'' = None"
      "processed_webhooks subscribed_store ''E4'' = None"
      "processed_webhooks subscribed_store ''E5'' = None"
      "processed_webhooks subscribed_store ''E6'' = None"
      "processed_webhooks subscribed_store ''E7'' = None"
      "entriesForEvent subscribed_store ''E2'' = []"
      "entriesForEvent subscribed_store ''E3'' = []"
      "entriesForEvent subscribed_store ''E4'' = []"
      "entriesForEvent subscribed_store ''E5'' = []"
      "entriesForEvent subscribed_store ''E6'' = []"
      "entriesForEvent subscribed_store ''E7'' = []"
      "\<not> ledger_has_key subscribed_store (''paypal_'' @ ''E4'')"
      "\<not> ledger_has_key subscribed_store (''paypal_refund_'' @ ''E3'')"
    by (simp_all add: subscribed_store_def entriesForEvent_def ledger_has_key_def initEntry_def
          purchaseEntry_def payment_event_def)
  have ev: "event_id renewal_event = ''E4''" "isPaymentEvent (event_type renewal_event)"
      "resource_id renewal_event = Some ''S1''" "\<not> truthy (resource_custom_id renewal_event)"
      "event_id refund_event = ''E3''" "isRefundEvent (event_type refund_event)"
      "resource_id refund_event = Some ''S1''"
      "event_id cancel_event = ''E2''" "\<not> isPaymentEvent (event_type cancel_event)"
      "\<not> isRefundEvent (event_type cancel_event)"
      "event_id orphan_payment_event = ''E5''" "\<not> truthy (resource_id orphan_payment_event)"
      "event_id stray_refund_event = ''E6''" "isRefundEvent (event_type stray_refund_event)"
      "resource_id stray_refund_event = Some ''S9''"
      "event_id stray_payment_event = ''E7''" "isPaymentEvent (event_type stray_payment_event)"
      "resource_id stray_payment_event = Some ''S9''"
      "\<not> truthy (resource_custom_id stray_payment_event)"
    by (simp_all add: renewal_event_def refund_event_def cancel_event_def orphan_payment_event_def
          stray_refund_event_def stray_payment_event_def isPaymentEvent_def isRefundEvent_def
          truthy_def)
  note A = webhook_replay_is_idempotent[OF t, where s = subscribed_store and ev = payment_event
      and isValid = True and fate = Commits]
  note P1 = webhook_replay_is_idempotent[OF t, where s = alice_store and ev = payment_event
      and sub = "''S1''" and uid = "''alice''" and isValid = True and fate = Commits]
  note P2 = webhook_replay_is_idempotent[OF t, where s = subscribed_store and ev = renewal_event
      and sub = "''S1''" and uid = "''alice''" and u = subscribed_doc and isValid = True
      and fate = Commits]
  note P3 = webhook_replay_is_idempotent[OF t, where s = subscribed_store and ev = refund_event
      and sub = "''S1''" and uid = "''alice''" and u = subscribed_doc and isValid = True
      and fate = Commits]
  note P4 = webhook_replay_is_idempotent[OF t, where s = subscribed_store and ev = cancel_event
      and isValid = True and fate = Commits and ?fate1.0 = Commits]
  note P5 = webhook_replay_is_idempotent[OF t, where s = subscribed_store
      and ev = orphan_payment_event and isValid = True and fate = Commits and ?fate1.0 = Commits]
  note P6 = webhook_replay_is_idempotent[OF t, where s = subscribed_store
      and ev = stray_refund_event and sub = "''S9''" and isValid = True and fate = Commits
      and ?fate1.0 = Commits]
  note P7 = webhook_replay_is_idempotent[OF t, where s = subscribed_store
      and ev = stray_payment_event and sub = "''S9''" and isValid = True and fate = Commits
      and ?fate1.0 = Commits]
  have c1: "snd (paypalWebhook True subscribed_store True Commits payment_event) = subscribed_store"
    using a A by simp
  have c2: "twiceGives True alice_store Commits True Commits payment_event
              [purchaseEntry payment_event ''alice'' 43]"
    using p1 P1 by simp
  have c3: "twiceGives True subscribed_store Commits True Commits renewal_event
              [purchaseEntry renewal_event ''alice'' 83]"
    using q fr ev P2 by simp
  have c4: "twiceGives True subscribed_store Commits True Commits refund_event
              [refundEntry refund_event ''alice'' 3]"
    using q fr ev P3 by simp
  have c5: "twiceGives True subscribed_store Commits True Commits cancel_event []"
    using fr ev P4 by simp
  have c6: "twiceGives True subscribed_store Commits True Commits orphan_payment_event []"
    using fr ev P5 by simp
  have c7: "twiceGives True subscribed_store Commits True Commits stray_refund_event []"
    using q fr ev P6 by simp
  have c8: "twiceGives True subscribed_store Commits True Commits stray_payment_event []"
    using q fr ev P7 by simp
  show ?thesis
    using a p1 q fr ev c1 c2 c3 c4 c5 c6 c7 c8 by simp
qed

subsection \<open>C8: the usage gate rejects exactly when no credits are left\<close>



subsection \<open>C9: a negative amount passes deductCredits\<close>

text \<open>
  C9. For an existing account with a balance \<open>b\<close> that is not negative and an amount
  \<open>amt < 0\<close>, \<^verbatim>\<open>deductCredits(userId, amt, description)\<close>, its transaction committing,
  succeeds, sets the balance to \<open>b - amt\<close>, which is greater than \<open>b\<close>, and appends an entry
  of type \<^verbatim>\<open>deduction\<close> whose amount is the positive number \<open>- amt\<close>.
\<close>

theorem deduct_negative_amount_adds:
  assumes "db" "map_of (users s) uid = Some d" "or_int (credits_balance d) 0 = b" "0 \<le> b" "amt < 0"
  shows "deductCredits db s Commits uid amt desc None =
           (\<lparr>success = True, newBalance = Some (b - amt), duplicate = False, error = None\<rparr>,
            add_ledger (set_user s uid (d\<lparr>credits_balance := Some (b - amt)\<rparr>))
              \<lparr>userId = uid, amount = - amt, entryType = ''deduction'', description = desc,
               idempotencyKey = None, paypalEventId = None, balanceAfter = Some (b - amt)\<rparr>)
         \<and> b < b - amt \<and> 0 < - amt
         \<and> balance_of (snd (deductCredits db s Commits uid amt desc None)) uid = b - amt"
proof -
  have "\<not> b < amt" using assms(4,5) by simp
  then have o: "deductCredits db s Commits uid amt desc None =
           (\<lparr>success = True, newBalance = Some (b - amt), duplicate = False, error = None\<rparr>,
            add_ledger (set_user s uid (d\<lparr>credits_balance := Some (b - amt)\<rparr>))
              (deductionEntry uid amt desc None (b - amt)))"
    by (simp add: deduct_outcome[OF assms(1,2,3)] replayed_def)
  have "balance_of (snd (deductCredits db s Commits uid amt desc None)) uid = b - amt"
    by (simp add: o balance_of_add_ledger balance_of_set_user or_int_def)
  then show ?thesis
    using o assms(4,5) by (simp add: deductionEntry_def)
qed

theorem deduct_negative_amount_adds_witness:
  "map_of (users alice_store) ''alice'' = Some freeAccount
   \<and> or_int (credits_balance freeAccount) 0 = 3 \<and> (0::int) \<le> 3 \<and> (- 5 :: int) < 0
   \<and> fst (deductCredits True alice_store Commits ''alice'' (- 5) ''AI Chat Interaction'' None)
       = \<lparr>success = True, newBalance = Some 8, duplicate = False, error = None\<rparr>
   \<and> balance_of (snd (deductCredits True alice_store Commits ''alice'' (- 5) ''AI Chat Interaction'' None))
        ''alice'' = 8"
proof -
  have u: "map_of (users alice_store) ''alice'' = Some freeAccount"
    by (simp add: alice_store_def freeAccount_def)
  have b: "or_int (credits_balance freeAccount) 0 = 3"
    by (simp add: freeAccount_def or_int_def)
  have t: "True" by simp
  have p: "(0::int) \<le> 3" and n: "(- 5 :: int) < 0" by simp_all
  show ?thesis
    using u b deduct_negative_amount_adds[OF t u b p n, where desc = "''AI Chat Interaction''"]
    by (simp add: balance_of_add_ledger balance_of_set_user or_int_0)
qed

subsection \<open>C10: the usage gate fails open\<close>

text \<open>
  C10. \<^verbatim>\<open>checkCredits\<close> calls \<^verbatim>\<open>next()\<close> without looking at any balance, and without
  touching the store, when the store handle is missing, when the request has no
  authorization header or one that does not start with \<^verbatim>\<open>'Bearer '\<close>, and when the token
  verification throws. Step 2 of \<^verbatim>\<open>POST /api/generate-plan\<close> is skipped as well when the
  store handle is missing.
\<close>

theorem usage_gate_fails_open:
  assumes "\<not> db \<or> (case authHeader of None \<Rightarrow> True
                    | Some h \<Rightarrow> \<not> startsWith h ''Bearer '' \<or> verifyIdToken (bearerToken h) = None)"
  shows "checkCredits db s verifyIdToken authHeader = (Next None, s)
       \<and> (\<not> db \<longrightarrow> generatePlanPrecheck db s uid = (Next None, s))"
  using assms
  by (auto simp: checkCredits_def generatePlanPrecheck_def Let_def split: option.splits)

theorem usage_gate_fails_open_witness:
  "checkCredits False spent_store token_of (Some ''Bearer tok-alice'') = (Next None, spent_store)
   \<and> generatePlanPrecheck False spent_store ''alice'' = (Next None, spent_store)
   \<and> checkCredits True spent_store token_of None = (Next None, spent_store)
   \<and> \<not> startsWith ''Basic abc'' ''Bearer ''
   \<and> checkCredits True spent_store token_of (Some ''Basic abc'') = (Next None, spent_store)
   \<and> startsWith ''Bearer forged'' ''Bearer '' \<and> token_of (bearerToken ''Bearer forged'') = None
   \<and> checkCredits True spent_store token_of (Some ''Bearer forged'') = (Next None, spent_store)"
proof -
  have a: "\<not> startsWith ''Basic abc'' ''Bearer ''"
    by (simp add: startsWith_def)
  have b: "startsWith ''Bearer forged'' ''Bearer ''" "token_of (bearerToken ''Bearer forged'') = None"
    by (simp_all add: startsWith_def bearerToken_def token_of_def)
  note A = usage_gate_fails_open[where db = False and s = spent_store and verifyIdToken = token_of
      and authHeader = "Some ''Bearer tok-alice''" and uid = "''alice''"]
  note B = usage_gate_fails_open[where db = True and s = spent_store and verifyIdToken = token_of
      and authHeader = None]
  note C = usage_gate_fails_open[where db = True and s = spent_store and verifyIdToken = token_of
      and authHeader = "Some ''Basic abc''"]
  note D = usage_gate_fails_open[where db = True and s = spent_store and verifyIdToken = token_of
      and authHeader = "Some ''Bearer forged''"]
  show ?thesis
    using a b A B C D by simp
qed

end
